theory Spec2Isabelle
  imports Complex_Main "HOL-Library.Sublist"
begin

section \<open>Float values as pandas and numpy carry them\<close>

text \<open>
  The analyzers compute on pandas columns of IEEE doubles. A value is a finite number, one
  of the two infinities, or NaN (which pandas also uses for "no value yet"). Finite values
  are modelled by exact reals: rounding error and overflow are outside the model, division
  by zero and NaN propagation are inside it. A zero divisor is read as \<open>+0\<close>.
\<close>

datatype fl = Fin real | PInf | NInf | NaN

fun fneg :: "fl \<Rightarrow> fl" where
  "fneg (Fin a) = Fin (- a)"
| "fneg PInf = NInf"
| "fneg NInf = PInf"
| "fneg NaN = NaN"

fun fadd :: "fl \<Rightarrow> fl \<Rightarrow> fl" where
  "fadd (Fin a) (Fin b) = Fin (a + b)"
| "fadd NaN _ = NaN"
| "fadd _ NaN = NaN"
| "fadd PInf NInf = NaN"
| "fadd NInf PInf = NaN"
| "fadd PInf _ = PInf"
| "fadd _ PInf = PInf"
| "fadd NInf _ = NInf"
| "fadd _ NInf = NInf"

definition fsub :: "fl \<Rightarrow> fl \<Rightarrow> fl" where
  "fsub a b = fadd a (fneg b)"

fun fmul :: "fl \<Rightarrow> fl \<Rightarrow> fl" where
  "fmul (Fin a) (Fin b) = Fin (a * b)"
| "fmul NaN _ = NaN"
| "fmul _ NaN = NaN"
| "fmul (Fin a) PInf = (if a = 0 then NaN else if 0 < a then PInf else NInf)"
| "fmul (Fin a) NInf = (if a = 0 then NaN else if 0 < a then NInf else PInf)"
| "fmul PInf (Fin b) = (if b = 0 then NaN else if 0 < b then PInf else NInf)"
| "fmul NInf (Fin b) = (if b = 0 then NaN else if 0 < b then NInf else PInf)"
| "fmul PInf PInf = PInf"
| "fmul PInf NInf = NInf"
| "fmul NInf PInf = NInf"
| "fmul NInf NInf = PInf"

fun fdiv :: "fl \<Rightarrow> fl \<Rightarrow> fl" where
  "fdiv (Fin a) (Fin b) =
     (if b \<noteq> 0 then Fin (a / b) else if 0 < a then PInf else if a < 0 then NInf else NaN)"
| "fdiv NaN _ = NaN"
| "fdiv _ NaN = NaN"
| "fdiv (Fin a) PInf = Fin 0"
| "fdiv (Fin a) NInf = Fin 0"
| "fdiv PInf (Fin b) = (if 0 \<le> b then PInf else NInf)"
| "fdiv NInf (Fin b) = (if 0 \<le> b then NInf else PInf)"
| "fdiv PInf PInf = NaN"
| "fdiv PInf NInf = NaN"
| "fdiv NInf PInf = NaN"
| "fdiv NInf NInf = NaN"

text \<open>Comparisons: every comparison with NaN is false.\<close>

fun flt :: "fl \<Rightarrow> fl \<Rightarrow> bool" where
  "flt (Fin a) (Fin b) = (a < b)"
| "flt NaN _ = False"
| "flt _ NaN = False"
| "flt PInf _ = False"
| "flt _ NInf = False"
| "flt NInf _ = True"
| "flt _ PInf = True"

fun feq :: "fl \<Rightarrow> fl \<Rightarrow> bool" where
  "feq (Fin a) (Fin b) = (a = b)"
| "feq PInf PInf = True"
| "feq NInf NInf = True"
| "feq _ _ = False"

definition fgt :: "fl \<Rightarrow> fl \<Rightarrow> bool" where
  "fgt a b = flt b a"

definition fle :: "fl \<Rightarrow> fl \<Rightarrow> bool" where
  "fle a b = (flt a b \<or> feq a b)"

definition fge :: "fl \<Rightarrow> fl \<Rightarrow> bool" where
  "fge a b = fle b a"

fun fabs :: "fl \<Rightarrow> fl" where
  "fabs (Fin a) = Fin \<bar>a\<bar>"
| "fabs PInf = PInf"
| "fabs NInf = PInf"
| "fabs NaN = NaN"

fun fsqrt :: "fl \<Rightarrow> fl" where
  "fsqrt (Fin a) = (if a < 0 then NaN else Fin (sqrt a))"
| "fsqrt PInf = PInf"
| "fsqrt NInf = NaN"
| "fsqrt NaN = NaN"

text \<open>\<open>round(x, n)\<close> on a numpy double: the scaled value rounded half to even.\<close>

definition round_half_even :: "real \<Rightarrow> int" where
  "round_half_even x =
     (let f = \<lfloor>x\<rfloor>; d = x - of_int f
      in if d < 1 / 2 then f else if 1 / 2 < d then f + 1 else if even f then f else f + 1)"

definition py_round :: "fl \<Rightarrow> nat \<Rightarrow> fl" where
  "py_round x n =
     (case x of Fin r \<Rightarrow> Fin (of_int (round_half_even (r * 10 ^ n)) / 10 ^ n) | _ \<Rightarrow> x)"

text \<open>\<open>int(x)\<close> on a finite double truncates towards zero.\<close>

definition py_int :: "real \<Rightarrow> int" where
  "py_int v = (if 0 \<le> v then \<lfloor>v\<rfloor> else \<lceil>v\<rceil>)"

section \<open>The pandas column operations the analyzers call\<close>

text \<open>
  A column is a list, oldest bar first. \<open>rolling(w)\<close> has \<open>min_periods = w\<close>: a row has a
  value only when its window holds \<open>w\<close> finite observations (pandas turns infinities into
  NaN before a rolling aggregation).
\<close>

fun fin_values :: "fl list \<Rightarrow> real list option" where
  "fin_values [] = Some []"
| "fin_values (Fin r # xs) = (case fin_values xs of None \<Rightarrow> None | Some rs \<Rightarrow> Some (r # rs))"
| "fin_values (_ # xs) = None"

definition window :: "nat \<Rightarrow> 'a list \<Rightarrow> nat \<Rightarrow> 'a list" where
  "window w xs i = take w (drop (i + 1 - w) xs)"

definition rolling :: "nat \<Rightarrow> (real list \<Rightarrow> real) \<Rightarrow> fl list \<Rightarrow> fl list" where
  "rolling w f xs =
     map (\<lambda>i. if i + 1 < w then NaN
              else (case fin_values (window w xs i) of None \<Rightarrow> NaN | Some rs \<Rightarrow> Fin (f rs)))
         [0..<length xs]"

definition mean :: "real list \<Rightarrow> real" where
  "mean rs = sum_list rs / real (length rs)"

text \<open>
  The sample standard deviation (\<open>ddof = 1\<close>), the default of \<open>std()\<close>, as the exact value.
  pandas computes it by a running update in floating point: on a window of equal values
  that follows varying ones it can leave a small positive residue where the exact value
  is 0. Nothing below is stated about such windows; on a column that is constant from its
  first row the running update is exact.
\<close>

definition sample_var :: "real list \<Rightarrow> real" where
  "sample_var rs = sum_list (map (\<lambda>x. (x - mean rs)\<^sup>2) rs) / (real (length rs) - 1)"

definition sample_std :: "real list \<Rightarrow> real" where
  "sample_std rs = sqrt (sample_var rs)"

definition list_min :: "real list \<Rightarrow> real" where
  "list_min rs = fold min (tl rs) (hd rs)"

definition list_max :: "real list \<Rightarrow> real" where
  "list_max rs = fold max (tl rs) (hd rs)"

definition rolling_mean :: "nat \<Rightarrow> fl list \<Rightarrow> fl list" where
  "rolling_mean w xs = rolling w mean xs"

definition rolling_std :: "nat \<Rightarrow> fl list \<Rightarrow> fl list" where
  "rolling_std w xs = rolling w sample_std xs"

definition rolling_min :: "nat \<Rightarrow> fl list \<Rightarrow> fl list" where
  "rolling_min w xs = rolling w list_min xs"

definition rolling_max :: "nat \<Rightarrow> fl list \<Rightarrow> fl list" where
  "rolling_max w xs = rolling w list_max xs"

text \<open>
  \<open>ewm(span=s, adjust=False).mean()\<close>: \<open>y\<^sub>0 = x\<^sub>0\<close> and
  \<open>y\<^sub>t = (1 - a) y\<^sub>t\<^sub>-\<^sub>1 + a x\<^sub>t\<close> with \<open>a = 2 / (s + 1)\<close>.
\<close>

fun ewm_from :: "real \<Rightarrow> real \<Rightarrow> real list \<Rightarrow> real list" where
  "ewm_from a y [] = []"
| "ewm_from a y (x # xs) = ((1 - a) * y + a * x) # ewm_from a ((1 - a) * y + a * x) xs"

definition ewm_mean :: "nat \<Rightarrow> real list \<Rightarrow> real list" where
  "ewm_mean spn xs =
     (case xs of [] \<Rightarrow> [] | x # t \<Rightarrow> x # ewm_from (2 / (real spn + 1)) x t)"

text \<open>\<open>diff()\<close> and \<open>pct_change()\<close>: the first row has no predecessor and is NaN.\<close>

definition diff :: "real list \<Rightarrow> fl list" where
  "diff xs = (case xs of [] \<Rightarrow> [] | _ # t \<Rightarrow> NaN # map2 (\<lambda>p c. Fin (c - p)) xs t)"

definition pct_change :: "real list \<Rightarrow> fl list" where
  "pct_change xs =
     (case xs of [] \<Rightarrow> []
      | _ # t \<Rightarrow> NaN # map2 (\<lambda>p c. fsub (fdiv (Fin c) (Fin p)) (Fin 1)) xs t)"

text \<open>\<open>s.where(cond, 0)\<close> keeps a value where the condition holds and puts 0 elsewhere.\<close>

definition where_or_zero :: "(fl \<Rightarrow> bool) \<Rightarrow> fl list \<Rightarrow> fl list" where
  "where_or_zero cond xs = map (\<lambda>x. if cond x then x else Fin 0) xs"

section \<open>Bars, rows and the indicator columns\<close>

text \<open>
  A bar is one row of the frame the price source returns. \<open>_fetch_data\<close> adds the column
  \<open>returns\<close>; \<open>calculate_indicators\<close> adds the indicator columns, so a row either carries
  all of them or none (\<open>ind = None\<close>: the columns do not exist, which is what
  \<open>latest.get(name, default)\<close> tests).
\<close>

record bar =
  b_open :: real
  b_high :: real
  b_low :: real
  b_close :: real
  b_volume :: real

record indicators =
  MA5 :: fl
  MA10 :: fl
  MA20 :: fl
  MA30 :: fl
  MA60 :: fl
  MACD :: fl
  MACD_signal :: fl
  RSI :: fl
  BB_middle :: fl
  BB_upper :: fl
  BB_lower :: fl
  BB_position :: fl
  pct_K :: fl
  pct_D :: fl
  volume_ma5 :: fl
  volume_ratio :: fl

record row = bar +
  returns :: fl
  ind :: "indicators option"

definition closes :: "row list \<Rightarrow> real list" where
  "closes d = map b_close d"

definition col_MA :: "nat \<Rightarrow> real list \<Rightarrow> fl list" where
  "col_MA w cs = rolling_mean w (map Fin cs)"

definition col_MACD :: "real list \<Rightarrow> real list" where
  "col_MACD cs = map2 (\<lambda>e1 e2. e1 - e2) (ewm_mean 12 cs) (ewm_mean 26 cs)"

definition col_MACD_signal :: "real list \<Rightarrow> real list" where
  "col_MACD_signal cs = ewm_mean 9 (col_MACD cs)"

definition avg_gain :: "real list \<Rightarrow> fl list" where
  "avg_gain cs = rolling_mean 14 (where_or_zero (\<lambda>d. fgt d (Fin 0)) (diff cs))"

definition avg_loss :: "real list \<Rightarrow> fl list" where
  "avg_loss cs = rolling_mean 14 (map fneg (where_or_zero (\<lambda>d. flt d (Fin 0)) (diff cs)))"

definition rsi_of :: "fl \<Rightarrow> fl \<Rightarrow> fl" where
  "rsi_of gain loss = fsub (Fin 100) (fdiv (Fin 100) (fadd (Fin 1) (fdiv gain loss)))"

definition col_RSI :: "real list \<Rightarrow> fl list" where
  "col_RSI cs = map2 rsi_of (avg_gain cs) (avg_loss cs)"

definition col_BB_middle :: "real list \<Rightarrow> fl list" where
  "col_BB_middle cs = rolling_mean 20 (map Fin cs)"

definition col_bb_std :: "real list \<Rightarrow> fl list" where
  "col_bb_std cs = rolling_std 20 (map Fin cs)"

definition col_BB_upper :: "real list \<Rightarrow> fl list" where
  "col_BB_upper cs = map2 (\<lambda>m s. fadd m (fmul s (Fin 2))) (col_BB_middle cs) (col_bb_std cs)"

definition col_BB_lower :: "real list \<Rightarrow> fl list" where
  "col_BB_lower cs = map2 (\<lambda>m s. fsub m (fmul s (Fin 2))) (col_BB_middle cs) (col_bb_std cs)"

definition bb_position_of :: "fl \<Rightarrow> fl \<Rightarrow> fl \<Rightarrow> fl" where
  "bb_position_of c lower upper = fdiv (fsub c lower) (fsub upper lower)"

definition col_BB_position :: "real list \<Rightarrow> fl list" where
  "col_BB_position cs =
     map (\<lambda>(c, lower, upper). bb_position_of c lower upper)
         (zip (map Fin cs) (zip (col_BB_lower cs) (col_BB_upper cs)))"

definition col_K :: "row list \<Rightarrow> fl list" where
  "col_K d =
     (let low_14 = rolling_min 14 (map (Fin \<circ> b_low) d);
          high_14 = rolling_max 14 (map (Fin \<circ> b_high) d)
      in map (\<lambda>(c, lo, hi). fmul (Fin 100) (fdiv (fsub c lo) (fsub hi lo)))
             (zip (map (Fin \<circ> b_close) d) (zip low_14 high_14)))"

definition col_D :: "row list \<Rightarrow> fl list" where
  "col_D d = rolling_mean 3 (col_K d)"

definition col_volume_ma5 :: "row list \<Rightarrow> fl list" where
  "col_volume_ma5 d = rolling_mean 5 (map (Fin \<circ> b_volume) d)"

definition col_volume_ratio :: "row list \<Rightarrow> fl list" where
  "col_volume_ratio d = map2 fdiv (map (Fin \<circ> b_volume) d) (col_volume_ma5 d)"

text \<open>The indicator values of row \<open>i\<close>, each read from its column.\<close>

definition indicators_at :: "row list \<Rightarrow> nat \<Rightarrow> indicators" where
  "indicators_at d i =
     \<lparr>MA5 = col_MA 5 (closes d) ! i,
      MA10 = col_MA 10 (closes d) ! i,
      MA20 = col_MA 20 (closes d) ! i,
      MA30 = col_MA 30 (closes d) ! i,
      MA60 = col_MA 60 (closes d) ! i,
      MACD = Fin (col_MACD (closes d) ! i),
      MACD_signal = Fin (col_MACD_signal (closes d) ! i),
      RSI = col_RSI (closes d) ! i,
      BB_middle = col_BB_middle (closes d) ! i,
      BB_upper = col_BB_upper (closes d) ! i,
      BB_lower = col_BB_lower (closes d) ! i,
      BB_position = col_BB_position (closes d) ! i,
      pct_K = col_K d ! i,
      pct_D = col_D d ! i,
      volume_ma5 = col_volume_ma5 d ! i,
      volume_ratio = col_volume_ratio d ! i\<rparr>"

definition with_indicators :: "row list \<Rightarrow> row list" where
  "with_indicators d = map (\<lambda>i. (d ! i)\<lparr>ind := Some (indicators_at d i)\<rparr>) [0..<length d]"

section \<open>mods/stock\_analyzer.py: class StockAnalyzer\<close>

text \<open>
  The price source \<open>get_price\<close> is a collaborator: it raises or returns a frame of bars
  (possibly empty). The clock \<open>datetime.now()\<close> is an input of every function that reads it.
\<close>

datatype fetched = Raises | Frame "bar list"

record analyzer =
  stock_code :: string
  period_days :: int
  df :: "row list"

definition fetch_data :: "(string \<Rightarrow> int \<Rightarrow> fetched) \<Rightarrow> string \<Rightarrow> int \<Rightarrow> row list" where
  "fetch_data get_price code days =
     (case get_price code days of
        Raises \<Rightarrow> []
      | Frame bars \<Rightarrow>
          map (\<lambda>(b, r). bar.extend b \<lparr>returns = r, ind = None\<rparr>)
              (zip bars (pct_change (map b_close bars))))"

definition StockAnalyzer :: "(string \<Rightarrow> int \<Rightarrow> fetched) \<Rightarrow> string \<Rightarrow> int \<Rightarrow> analyzer" where
  "StockAnalyzer get_price code days =
     \<lparr>stock_code = code, period_days = days, df = fetch_data get_price code days\<rparr>"

definition calculate_indicators :: "analyzer \<Rightarrow> bool \<times> analyzer" where
  "calculate_indicators a =
     (if df a = [] \<or> length (df a) < 30 then (False, a)
      else (True, a\<lparr>df := with_indicators (df a)\<rparr>))"

subsection \<open>Signals\<close>

text \<open>
  The reason texts are fixed strings of the source; each is a constructor here.
  \<open>MA5_rising\<close> carries the slope that app2.py formats into its text.
\<close>

datatype reason =
    Price_above_MA20
  | MA_bullish_alignment
  | MA5_rising fl
  | RSI_healthy
  | RSI_oversold
  | RSI_oversold_rebound
  | MACD_golden_cross
  | MACD_golden_cross_formed
  | MACD_above_zero
  | K_oversold
  | KD_golden_cross
  | Near_BB_lower
  | Near_BB_upper
  | Volume_surge
  | Price_volume_up
  | Volume_above_ma5
  | Hammer
  | Morning_star

text \<open>
  A category is a dict with the keys \<open>reasons\<close> and \<open>score\<close>, or (the patterns category)
  with the keys \<open>patterns\<close> and \<open>score\<close>.
\<close>

datatype category = Reasons "reason list" int | Patterns "reason list" int

fun score :: "category \<Rightarrow> int" where
  "score (Reasons rs n) = n"
| "score (Patterns ps n) = n"

fun reasons_of :: "category \<Rightarrow> reason list option" where
  "reasons_of (Reasons rs n) = Some rs"
| "reasons_of (Patterns ps n) = None"

fun patterns_of :: "category \<Rightarrow> reason list option" where
  "patterns_of (Reasons rs n) = None"
| "patterns_of (Patterns ps n) = Some ps"

text \<open>\<open>c['reasons'].append(r); c['score'] += n\<close>\<close>

fun award :: "reason \<Rightarrow> int \<Rightarrow> category \<Rightarrow> category" where
  "award r n (Reasons rs k) = Reasons (rs @ [r]) (k + n)"
| "award r n (Patterns ps k) = Patterns ps (k + n)"

record signals =
  trend :: category
  momentum :: category
  volume :: category
  oscillators :: category
  patterns :: category

text \<open>\<open>signals.values()\<close>, in the insertion order of the dict.\<close>

definition signal_values :: "signals \<Rightarrow> category list" where
  "signal_values s = [trend s, momentum s, volume s, oscillators s, patterns s]"

text \<open>\<open>row.get(name, default)\<close>: the default only when the column does not exist.\<close>

definition row_get :: "row \<Rightarrow> (indicators \<Rightarrow> fl) \<Rightarrow> fl \<Rightarrow> fl" where
  "row_get r f dflt = (case ind r of None \<Rightarrow> dflt | Some i \<Rightarrow> f i)"

definition analyze_signals :: "row \<Rightarrow> row \<Rightarrow> signals" where
  "analyze_signals latest prev =
     (let t0 = Reasons [] 0;
          t1 = (if fgt (Fin (b_close latest)) (row_get latest MA20 (Fin 0))
                then award Price_above_MA20 15 t0 else t0);
          t2 = (if fgt (row_get latest MA5 (Fin 0)) (row_get latest MA10 (Fin 0)) \<and>
                   fgt (row_get latest MA10 (Fin 0)) (row_get latest MA20 (Fin 0))
                then award MA_bullish_alignment 10 t1 else t1);
          rsi = row_get latest RSI (Fin 50);
          m0 = Reasons [] 0;
          m1 = (if flt (Fin 30) rsi \<and> flt rsi (Fin 70) then award RSI_healthy 10 m0
                else if flt rsi (Fin 30) then award RSI_oversold 20 m0 else m0);
          macd = row_get latest MACD (Fin 0);
          macd_signal = row_get latest MACD_signal (Fin 0);
          prev_macd = row_get prev MACD (Fin 0);
          prev_signal = row_get prev MACD_signal (Fin 0);
          m2 = (if fgt macd macd_signal \<and> fle prev_macd prev_signal
                then award MACD_golden_cross 15 m1 else m1);
          k_value = row_get latest pct_K (Fin 50);
          o0 = Reasons [] 0;
          o1 = (if flt k_value (Fin 20) then award K_oversold 15 o0 else o0);
          bb_position = row_get latest BB_position (Fin (1 / 2));
          o2 = (if flt bb_position (Fin (3 / 10)) then award Near_BB_lower 10 o1 else o1);
          vr = row_get latest volume_ratio (Fin 1);
          v0 = Reasons [] 0;
          v1 = (if fgt vr (Fin (3 / 2)) then award Volume_surge 15 v0 else v0);
          v2 = (if b_close latest > b_close prev \<and> b_volume latest > b_volume prev
                then award Price_volume_up 10 v1 else v1)
      in \<lparr>trend = t2, momentum = m2, volume = v2, oscillators = o2,
          patterns = Patterns [] 0\<rparr>)"

definition calculate_confidence :: "signals \<Rightarrow> int" where
  "calculate_confidence s =
     min (foldl (\<lambda>total c. total + min (score c) 30) 0 (signal_values s)) 100"

subsection \<open>Risk metrics\<close>

datatype risk_level = High_risk | Medium_risk | Low_risk

record risk_metrics =
  volatility :: fl
  sharpe_ratio :: fl
  max_drawdown :: fl
  level :: risk_level

definition dropna :: "fl list \<Rightarrow> fl list" where
  "dropna xs = filter (\<lambda>x. x \<noteq> NaN) xs"

definition fsum :: "fl list \<Rightarrow> fl" where
  "fsum xs = foldl fadd (Fin 0) xs"

text \<open>\<open>Series.mean()\<close> and \<open>Series.std()\<close> (sample deviation) of a column without NaN.\<close>

definition series_mean :: "fl list \<Rightarrow> fl" where
  "series_mean xs = fdiv (fsum xs) (Fin (real (length xs)))"

definition series_std :: "fl list \<Rightarrow> fl" where
  "series_std xs =
     (if length xs \<le> 1 then NaN
      else fsqrt (fdiv (fsum (map (\<lambda>x. fmul (fsub x (series_mean xs)) (fsub x (series_mean xs))) xs))
                       (Fin (real (length xs) - 1))))"

fun cumprod_from :: "fl \<Rightarrow> fl list \<Rightarrow> fl list" where
  "cumprod_from acc [] = []"
| "cumprod_from acc (x # xs) = fmul acc x # cumprod_from (fmul acc x) xs"

definition cumprod :: "fl list \<Rightarrow> fl list" where
  "cumprod xs = cumprod_from (Fin 1) xs"

text \<open>
  \<open>expanding().max()\<close>: the largest finite value seen so far, NaN while there is none.
\<close>

fun expanding_max_from :: "real option \<Rightarrow> fl list \<Rightarrow> fl list" where
  "expanding_max_from best [] = []"
| "expanding_max_from best (Fin x # xs) =
     (let b = (case best of None \<Rightarrow> x | Some m \<Rightarrow> max m x)
      in Fin b # expanding_max_from (Some b) xs)"
| "expanding_max_from best (_ # xs) =
     (case best of None \<Rightarrow> NaN | Some m \<Rightarrow> Fin m) # expanding_max_from best xs"

definition expanding_max :: "fl list \<Rightarrow> fl list" where
  "expanding_max xs = expanding_max_from None xs"

text \<open>\<open>Series.min()\<close> skips NaN and is NaN when nothing is left.\<close>

definition series_min :: "fl list \<Rightarrow> fl" where
  "series_min xs =
     (case dropna xs of [] \<Rightarrow> NaN
      | y # ys \<Rightarrow> fold (\<lambda>x m. if flt x m then x else m) ys y)"

definition calculate_risk_metrics :: "analyzer \<Rightarrow> risk_metrics option" where
  "calculate_risk_metrics a =
     (if length (df a) < 20 then None
      else
        let rets = dropna (map returns (df a));
            vol = fmul (fmul (series_std rets) (Fin (sqrt 252))) (Fin 100);
            sharpe = (if fgt (series_std rets) (Fin 0)
                      then fmul (fdiv (series_mean rets) (series_std rets)) (Fin (sqrt 252))
                      else Fin 0);
            cumulative = cumprod (map (\<lambda>r. fadd (Fin 1) r) rets);
            running_max = expanding_max cumulative;
            drawdown = map2 (\<lambda>c m. fdiv (fsub c m) m) cumulative running_max;
            max_dd = fmul (series_min drawdown) (Fin 100);
            lvl = (if fgt vol (Fin 40) then High_risk
                   else if fgt vol (Fin 20) then Medium_risk else Low_risk)
        in Some \<lparr>volatility = py_round vol 2, sharpe_ratio = py_round sharpe 3,
                 max_drawdown = py_round (fabs max_dd) 2, level = lvl\<rparr>)"

subsection \<open>Results\<close>

datatype signal_label = Strong_buy | Buy | Watch | Avoid

datatype action = BUY | HOLD | SELL

datatype position = Medium_position | Light_position | Wait_and_see | Not_recommended

record indicator_report =
  rep_MA5 :: fl
  rep_MA10 :: fl
  rep_MA20 :: fl
  rep_RSI :: fl
  rep_MACD :: fl
  rep_KD_K :: fl
  rep_KD_D :: fl
  rep_BB_position :: fl

record analysis =
  confidence_score :: int
  signal :: signal_label
  act :: action
  position_suggestion :: position
  key_reasons :: "reason list"
  detailed_signals :: signals

record report =
  rep_stock_code :: string
  rep_timestamp :: string
  current_price :: fl
  price_change :: fl
  rep_volume :: int
  rep_indicators :: indicator_report
  rep_analysis :: analysis
  rep_risk_metrics :: "risk_metrics option"
  rep_success :: "bool option"

text \<open>
  What \<open>analyze\<close> returns: the dict of \<open>_empty_result\<close> (stock code, the fixed error text,
  timestamp and, in mods/stock\_analyzer.py, \<open>success = False\<close>), or the populated dict.
  A key a dict does not have is \<open>None\<close>. The confidence is a Python int (a sum of int
  scores), and \<open>round(confidence, 1)\<close> of an int is that int.
\<close>

datatype analysis_result = Empty_result string string "bool option" | Populated report

fun get_success :: "analysis_result \<Rightarrow> bool" where
  "get_success (Empty_result c t s) = (s = Some True)"
| "get_success (Populated r) = (rep_success r = Some True)"

fun result_code :: "analysis_result \<Rightarrow> string" where
  "result_code (Empty_result c t s) = c"
| "result_code (Populated r) = rep_stock_code r"

definition empty_result :: "analyzer \<Rightarrow> string \<Rightarrow> analysis_result" where
  "empty_result a now = Empty_result (stock_code a) now (Some False)"

text \<open>The label, action and position of a confidence, thresholds read highest first.\<close>

definition verdict :: "int \<Rightarrow> signal_label \<times> action \<times> position" where
  "verdict confidence =
     (if confidence \<ge> 75 then (Strong_buy, BUY, Medium_position)
      else if confidence \<ge> 60 then (Buy, BUY, Light_position)
      else if confidence \<ge> 45 then (Watch, HOLD, Wait_and_see)
      else (Avoid, SELL, Not_recommended))"

definition collect_reasons :: "signals \<Rightarrow> reason list" where
  "collect_reasons s =
     concat (map (\<lambda>c. case reasons_of c of None \<Rightarrow> [] | Some rs \<Rightarrow> rs) (signal_values s))"

definition generate_result ::
  "analyzer \<Rightarrow> string \<Rightarrow> row \<Rightarrow> row \<Rightarrow> signals \<Rightarrow> int \<Rightarrow> analysis_result" where
  "generate_result a now latest prev sigs confidence =
     (let change = fmul (fdiv (Fin (b_close latest - b_close prev)) (Fin (b_close prev))) (Fin 100);
          key = collect_reasons sigs;
          (lbl, ac, pos) = verdict confidence;
          risk = calculate_risk_metrics a
      in Populated
          \<lparr>rep_stock_code = stock_code a,
           rep_timestamp = now,
           current_price = py_round (Fin (b_close latest)) 2,
           price_change = py_round change 2,
           rep_volume = py_int (b_volume latest),
           rep_indicators =
             \<lparr>rep_MA5 = py_round (row_get latest MA5 (Fin 0)) 2,
              rep_MA10 = py_round (row_get latest MA10 (Fin 0)) 2,
              rep_MA20 = py_round (row_get latest MA20 (Fin 0)) 2,
              rep_RSI = py_round (row_get latest RSI (Fin 50)) 2,
              rep_MACD = py_round (row_get latest MACD (Fin 0)) 4,
              rep_KD_K = py_round (row_get latest pct_K (Fin 50)) 2,
              rep_KD_D = py_round (row_get latest pct_D (Fin 50)) 2,
              rep_BB_position = py_round (row_get latest BB_position (Fin (1 / 2))) 3\<rparr>,
           rep_analysis =
             \<lparr>confidence_score = confidence,
              signal = lbl, act = ac, position_suggestion = pos,
              key_reasons = take 5 key,
              detailed_signals = sigs\<rparr>,
           rep_risk_metrics = risk,
           rep_success = Some True\<rparr>)"

definition analyze :: "analyzer \<Rightarrow> string \<Rightarrow> analysis_result" where
  "analyze a now =
     (if df a = [] \<or> length (df a) < 30 then empty_result a now
      else
        let latest = last (df a);
            prev = df a ! (length (df a) - 2);
            sigs = analyze_signals latest prev;
            confidence = calculate_confidence sigs
        in generate_result a now latest prev sigs confidence)"

section \<open>mods/stock\_analyzer.py: class BatchStockAnalyzer\<close>

datatype py_error = KeyError | ValueError | Other_error string

text \<open>
  The body of the loop of \<open>analyze_all\<close> for one symbol, up to the threshold test:
  \<open>Inr None\<close> is a \<open>continue\<close>, \<open>Inl\<close> an exception. The clock gives the time at which
  a symbol's result is built. An exception of the price source is caught inside
  \<open>_fetch_data\<close> and leaves an empty frame, so it reaches the loop as the first
  \<open>continue\<close>; no other statement of the body raises on a frame of finite bars.
\<close>

definition analyze_symbol ::
  "(string \<Rightarrow> int \<Rightarrow> fetched) \<Rightarrow> (string \<Rightarrow> string) \<Rightarrow> int \<Rightarrow> string \<Rightarrow>
   py_error + analysis_result option" where
  "analyze_symbol get_price clock days code =
     (let a = StockAnalyzer get_price code days
      in if df a = [] \<or> length (df a) < 30 then Inr None
         else (case calculate_indicators a of
                 (False, _) \<Rightarrow> Inr None
               | (True, a') \<Rightarrow> Inr (Some (analyze a' (clock code)))))"

text \<open>
  \<open>result.get('success') and result['analysis']['confidence_score'] >= min_confidence\<close>:
  the results kept are populated reports.
\<close>

fun passing :: "real \<Rightarrow> analysis_result \<Rightarrow> report option" where
  "passing thr (Empty_result c t s) = None"
| "passing thr (Populated r) =
     (if rep_success r = Some True \<and> real_of_int (confidence_score (rep_analysis r)) \<ge> thr
      then Some r else None)"

text \<open>
  The loop of \<open>analyze_all\<close> around a body: \<open>try: body except Exception: continue\<close>. An
  exception of the body, whatever it is, ends the pass for that symbol only.
\<close>

fun analyze_loop ::
  "(string \<Rightarrow> py_error + analysis_result option) \<Rightarrow> real \<Rightarrow> string list \<Rightarrow>
   report list \<Rightarrow> report list" where
  "analyze_loop body thr [] acc = acc"
| "analyze_loop body thr (c # cs) acc =
     (case body c of
        Inl e \<Rightarrow> analyze_loop body thr cs acc
      | Inr None \<Rightarrow> analyze_loop body thr cs acc
      | Inr (Some res) \<Rightarrow>
          (case passing thr res of
             None \<Rightarrow> analyze_loop body thr cs acc
           | Some r \<Rightarrow> analyze_loop body thr cs (acc @ [r])))"

text \<open>
  \<open>list.sort(key=k, reverse=True)\<close> is stable: descending by key, equal keys in their
  original order.
\<close>

definition sort_desc :: "('a \<Rightarrow> int) \<Rightarrow> 'a list \<Rightarrow> 'a list" where
  "sort_desc k xs = sort_key (\<lambda>x. - k x) xs"

definition conf :: "report \<Rightarrow> int" where
  "conf r = confidence_score (rep_analysis r)"

record batch =
  stock_list :: "string list"
  batch_days :: int
  results :: "report list"

definition BatchStockAnalyzer :: "string list \<Rightarrow> int \<Rightarrow> batch" where
  "BatchStockAnalyzer codes days = \<lparr>stock_list = codes, batch_days = days, results = []\<rparr>"

definition analyze_all ::
  "(string \<Rightarrow> int \<Rightarrow> fetched) \<Rightarrow> (string \<Rightarrow> string) \<Rightarrow> batch \<Rightarrow> real \<Rightarrow> report list \<times> batch" where
  "analyze_all get_price clock b min_confidence =
     (let rs = sort_desc conf
                 (analyze_loop (analyze_symbol get_price clock (batch_days b)) min_confidence
                    (stock_list b) [])
      in (rs, b\<lparr>results := rs\<rparr>))"

text \<open>\<open>xs[:n]\<close>; a negative \<open>n\<close> counts from the end.\<close>

definition slice_to :: "int \<Rightarrow> 'a list \<Rightarrow> 'a list" where
  "slice_to n xs = (if 0 \<le> n then take (nat n) xs else take (length xs - nat (- n)) xs)"

definition get_top_stocks ::
  "(string \<Rightarrow> int \<Rightarrow> fetched) \<Rightarrow> (string \<Rightarrow> string) \<Rightarrow> batch \<Rightarrow> int \<Rightarrow> report list \<times> batch" where
  "get_top_stocks get_price clock b top_n =
     (let b' = (if results b = [] then snd (analyze_all get_price clock b 80) else b)
      in (slice_to top_n (results b'), b'))"

section \<open>app2.py: class StockSignalAnalyzer\<close>

text \<open>
  app2.py reads the indicator columns with \<open>latest[name]\<close>, which raises KeyError when
  the column does not exist. \<open>calculate_all_indicators\<close> computes the columns of
  \<open>calculate_indicators\<close> with the same expressions (and \<open>MACD_hist\<close>, which nothing reads).
\<close>

definition calculate_all_indicators :: "analyzer \<Rightarrow> bool \<times> analyzer" where
  "calculate_all_indicators a =
     (if df a = [] \<or> length (df a) < 30 then (False, a)
      else (True, a\<lparr>df := with_indicators (df a)\<rparr>))"

definition app2_analyze_trend :: "row \<Rightarrow> indicators \<Rightarrow> fl \<Rightarrow> category" where
  "app2_analyze_trend latest li ma5_back =
     (let t0 = Reasons [] 0;
          t1 = (if fgt (MA5 li) (MA10 li) \<and> fgt (MA10 li) (MA20 li)
                then award MA_bullish_alignment 25 t0 else t0);
          t2 = (if fgt (Fin (b_close latest)) (MA20 li)
                then award Price_above_MA20 15 t1 else t1);
          ma_slope = fmul (fdiv (fsub (MA5 li) ma5_back) ma5_back) (Fin 100)
      in if fgt ma_slope (Fin 1) then award (MA5_rising ma_slope) 10 t2 else t2)"

definition app2_analyze_momentum :: "indicators \<Rightarrow> indicators \<Rightarrow> category" where
  "app2_analyze_momentum li pri =
     (let m0 = Reasons [] 0;
          m1 = (if flt (Fin 30) (RSI li) \<and> flt (RSI li) (Fin 70) then award RSI_healthy 10 m0
                else if flt (RSI li) (Fin 30) then award RSI_oversold_rebound 20 m0 else m0)
      in if fgt (MACD li) (MACD_signal li) \<and> fle (MACD pri) (MACD_signal pri)
         then award MACD_golden_cross_formed 25 m1
         else if fgt (MACD li) (Fin 0) then award MACD_above_zero 15 m1 else m1)"

definition app2_analyze_volume :: "row \<Rightarrow> row \<Rightarrow> indicators \<Rightarrow> category" where
  "app2_analyze_volume latest prev li =
     (let v0 = Reasons [] 0;
          v1 = (if fgt (volume_ratio li) (Fin (3 / 2)) then award Volume_surge 20 v0 else v0);
          v2 = (if b_close latest > b_close prev \<and> b_volume latest > b_volume prev
                then award Price_volume_up 15 v1 else v1)
      in if fgt (Fin (b_volume latest)) (volume_ma5 li) then award Volume_above_ma5 10 v2 else v2)"

definition app2_analyze_oscillators :: "indicators \<Rightarrow> category" where
  "app2_analyze_oscillators li =
     (let o0 = Reasons [] 0;
          o1 = (if flt (pct_K li) (Fin 20) then award K_oversold 15 o0
                else if fgt (pct_K li) (pct_D li) then award KD_golden_cross 10 o0 else o0)
      in if flt (BB_position li) (Fin (3 / 10)) then award Near_BB_lower 10 o1
         else if fgt (BB_position li) (Fin (7 / 10)) then award Near_BB_upper 5 o1 else o1)"

definition is_hammer :: "'a bar_scheme \<Rightarrow> bool" where
  "is_hammer candle =
     (let body_size = \<bar>b_close candle - b_open candle\<bar>;
          lower_shadow = min (b_close candle) (b_open candle) - b_low candle;
          upper_shadow = b_high candle - max (b_close candle) (b_open candle)
      in lower_shadow > body_size * 2 \<and> upper_shadow < body_size * (1 / 2))"

definition is_morning_star :: "'a bar_scheme \<Rightarrow> 'a bar_scheme \<Rightarrow> 'a bar_scheme \<Rightarrow> bool" where
  "is_morning_star day1 day2 day3 =
     (let day1_bearish = b_close day1 < b_open day1;
          gap_down = b_open day2 < b_close day1;
          day3_bullish = b_close day3 > b_open day3;
          recovery = b_close day3 > (b_open day1 + b_close day1) / 2
      in day1_bearish \<and> gap_down \<and> day3_bullish \<and> recovery)"

text \<open>\<open>df.tail(5)\<close> and then \<open>iloc\<close> from the end; called on frames of 30 rows or more.\<close>

definition check_patterns :: "row list \<Rightarrow> category" where
  "check_patterns d =
     (let recent = drop (length d - 5) d;
          p1 = (if is_hammer (last recent) then [Hammer] else []);
          p2 = (if length recent \<ge> 3 \<and>
                   is_morning_star (recent ! (length recent - 3)) (recent ! (length recent - 2))
                     (last recent)
                then p1 @ [Morning_star] else p1)
      in Patterns p2 (int (length p2) * 10))"

definition app2_analyze_signals :: "row list \<Rightarrow> py_error + signals" where
  "app2_analyze_signals d =
     (let latest = last d; prev = d ! (length d - 2)
      in case (ind latest, ind prev, ind (d ! (length d - 6))) of
           (Some li, Some pri, Some i6) \<Rightarrow>
             Inr \<lparr>trend = app2_analyze_trend latest li (MA5 i6),
                  momentum = app2_analyze_momentum li pri,
                  volume = app2_analyze_volume latest prev li,
                  oscillators = app2_analyze_oscillators li,
                  patterns = check_patterns d\<rparr>
         | _ \<Rightarrow> Inl KeyError)"

text \<open>
  The loop adds \<open>min(score, 30)\<close> of every category, the patterns category included; the
  statement after it adds the patterns score once more.
\<close>

definition app2_calculate_confidence :: "signals \<Rightarrow> int" where
  "app2_calculate_confidence s =
     (let total = foldl (\<lambda>total c. total + min (score c) 30) 0 (signal_values s);
          total' = total + score (patterns s)
      in min total' 100)"

definition app2_generate_result ::
  "analyzer \<Rightarrow> string \<Rightarrow> signals \<Rightarrow> int \<Rightarrow> py_error + analysis_result" where
  "app2_generate_result a now sigs confidence =
     (let latest = last (df a); prev = df a ! (length (df a) - 2)
      in case ind latest of
           None \<Rightarrow> Inl KeyError
         | Some li \<Rightarrow>
            (let change = fmul (fdiv (Fin (b_close latest - b_close prev)) (Fin (b_close prev)))
                               (Fin 100);
                 all_reasons = collect_reasons sigs @
                   (case patterns_of (patterns sigs) of None \<Rightarrow> [] | Some ps \<Rightarrow> ps);
                 (lbl, ac, pos) = verdict confidence
             in Inr (Populated
                 \<lparr>rep_stock_code = stock_code a,
                  rep_timestamp = now,
                  current_price = py_round (Fin (b_close latest)) 2,
                  price_change = py_round change 2,
                  rep_volume = py_int (b_volume latest),
                  rep_indicators =
                    \<lparr>rep_MA5 = py_round (MA5 li) 2,
                     rep_MA10 = py_round (MA10 li) 2,
                     rep_MA20 = py_round (MA20 li) 2,
                     rep_RSI = py_round (RSI li) 2,
                     rep_MACD = py_round (MACD li) 4,
                     rep_KD_K = py_round (pct_K li) 2,
                     rep_KD_D = py_round (pct_D li) 2,
                     rep_BB_position = py_round (BB_position li) 3\<rparr>,
                  rep_analysis =
                    \<lparr>confidence_score = confidence,
                     signal = lbl, act = ac, position_suggestion = pos,
                     key_reasons = take 5 all_reasons,
                     detailed_signals = sigs\<rparr>,
                  rep_risk_metrics = calculate_risk_metrics a,
                  rep_success = None\<rparr>)))"

definition app2_analyze :: "analyzer \<Rightarrow> string \<Rightarrow> py_error + analysis_result" where
  "app2_analyze a now =
     (if df a = [] \<or> length (df a) < 30 then Inr (Empty_result (stock_code a) now None)
      else (case app2_analyze_signals (df a) of
              Inl e \<Rightarrow> Inl e
            | Inr sigs \<Rightarrow> app2_generate_result a now sigs (app2_calculate_confidence sigs)))"

section \<open>old/app.py: the momentum rule of the first analyzer\<close>

text \<open>
  \<open>_analyze_signals\<close> of old/app.py reads the columns with \<open>latest[name]\<close>; it is given
  the indicator values of the latest row here. It has no volume rules.
\<close>

definition old_analyze_signals :: "row \<Rightarrow> indicators \<Rightarrow> signals" where
  "old_analyze_signals latest li =
     (let t0 = Reasons [] 0;
          t1 = (if fgt (Fin (b_close latest)) (MA20 li) then award Price_above_MA20 15 t0 else t0);
          t2 = (if fgt (MA5 li) (MA10 li) \<and> fgt (MA10 li) (MA20 li)
                then award MA_bullish_alignment 10 t1 else t1);
          m0 = Reasons [] 0;
          m1 = (if flt (Fin 30) (RSI li) \<and> flt (RSI li) (Fin 70) then award RSI_healthy 10 m0
                else if flt (RSI li) (Fin 30) then award RSI_oversold 20 m0 else m0);
          m2 = (if fgt (MACD li) (MACD_signal li) then award MACD_golden_cross 15 m1 else m1);
          o0 = Reasons [] 0;
          o1 = (if flt (pct_K li) (Fin 20) then award K_oversold 15 o0 else o0);
          o2 = (if flt (BB_position li) (Fin (3 / 10)) then award Near_BB_lower 10 o1 else o1)
      in \<lparr>trend = t2, momentum = m2, volume = Reasons [] 0, oscillators = o2,
          patterns = Patterns [] 0\<rparr>)"

section \<open>Vocabulary of the statements\<close>

text \<open>The result with its timestamp replaced: what two runs at different times share.\<close>

fun with_timestamp :: "string \<Rightarrow> analysis_result \<Rightarrow> analysis_result" where
  "with_timestamp t (Empty_result c t0 s) = Empty_result c t s"
| "with_timestamp t (Populated r) = Populated (r\<lparr>rep_timestamp := t\<rparr>)"

fun result_confidence :: "analysis_result \<Rightarrow> int option" where
  "result_confidence (Empty_result c t s) = None"
| "result_confidence (Populated r) = Some (confidence_score (rep_analysis r))"

fun result_action :: "analysis_result \<Rightarrow> action option" where
  "result_action (Empty_result c t s) = None"
| "result_action (Populated r) = Some (act (rep_analysis r))"

text \<open>The bar data of a frame: its rows without the derived columns.\<close>

definition bars_of :: "row list \<Rightarrow> bar list" where
  "bars_of d =
     map (\<lambda>r. \<lparr>b_open = b_open r, b_high = b_high r, b_low = b_low r, b_close = b_close r,
                b_volume = b_volume r\<rparr>) d"

fun result_signals :: "analysis_result \<Rightarrow> signals option" where
  "result_signals (Empty_result c t s) = None"
| "result_signals (Populated r) = Some (detailed_signals (rep_analysis r))"

text \<open>
  The confidence as the specification words it: the sum over the five categories of
  \<open>min(score, 30)\<close>, clamped to \<open>[0, 100]\<close>.
\<close>

definition spec_confidence :: "signals \<Rightarrow> int" where
  "spec_confidence s =
     max 0 (min 100 (sum_list (map (\<lambda>c. min (score c) 30)
                                   [trend s, momentum s, volume s, oscillators s, patterns s])))"

text \<open>The RSI part of a momentum score, the same in the three analyzers.\<close>

definition rsi_points :: "fl \<Rightarrow> int" where
  "rsi_points rsi =
     (if flt (Fin 30) rsi \<and> flt rsi (Fin 70) then 10 else if flt rsi (Fin 30) then 20 else 0)"

text \<open>A strict upward crossing of MACD over its signal line between two bars.\<close>

definition crosses_up :: "fl \<Rightarrow> fl \<Rightarrow> fl \<Rightarrow> fl \<Rightarrow> bool" where
  "crosses_up prev_macd prev_signal macd macd_signal =
     (fle prev_macd prev_signal \<and> fgt macd macd_signal)"

text \<open>
  The MACD part of the momentum score as the specification words it: 15 for a crossing,
  else 15 when MACD is above zero.
\<close>

definition spec_macd_points :: "fl \<Rightarrow> fl \<Rightarrow> fl \<Rightarrow> fl \<Rightarrow> int" where
  "spec_macd_points prev_macd prev_signal macd macd_signal =
     (if crosses_up prev_macd prev_signal macd macd_signal then 15
      else if fgt macd (Fin 0) then 15 else 0)"

text \<open>An RSI value is in range when it is absent (NaN) or a number of \<open>[0, 100]\<close>.\<close>

definition rsi_in_range :: "fl \<Rightarrow> bool" where
  "rsi_in_range x = (case x of Fin r \<Rightarrow> 0 \<le> r \<and> r \<le> 100 | NaN \<Rightarrow> True | _ \<Rightarrow> False)"

text \<open>The latest and the previous row that \<open>analyze\<close> reads from an enriched frame.\<close>

definition latest_row :: "row list \<Rightarrow> row" where
  "latest_row d = (last d)\<lparr>ind := Some (indicators_at d (length d - 1))\<rparr>"

definition prev_row :: "row list \<Rightarrow> row" where
  "prev_row d = (d ! (length d - 2))\<lparr>ind := Some (indicators_at d (length d - 2))\<rparr>"

text \<open>The row app2.py reads with \<open>iloc[-6]\<close> for the slope of MA5.\<close>

definition back_row :: "row list \<Rightarrow> row" where
  "back_row d = (d ! (length d - 6))\<lparr>ind := Some (indicators_at d (length d - 6))\<rparr>"

text \<open>The signals app2.py derives from a frame once its indicator columns are there.\<close>

definition app2_signals_at :: "row list \<Rightarrow> signals" where
  "app2_signals_at d =
     \<lparr>trend = app2_analyze_trend (latest_row d) (indicators_at d (length d - 1))
                (MA5 (indicators_at d (length d - 6))),
      momentum = app2_analyze_momentum (indicators_at d (length d - 1))
                   (indicators_at d (length d - 2)),
      volume = app2_analyze_volume (latest_row d) (prev_row d) (indicators_at d (length d - 1)),
      oscillators = app2_analyze_oscillators (indicators_at d (length d - 1)),
      patterns = check_patterns (with_indicators d)\<rparr>"

text \<open>
  What one run of the loop keeps, in the order of the symbol list: the reports of the
  symbols whose body returned a result that passes the threshold.
\<close>

definition kept ::
  "(string \<Rightarrow> py_error + analysis_result option) \<Rightarrow> real \<Rightarrow> string list \<Rightarrow> report list" where
  "kept body thr codes =
     List.map_filter (\<lambda>c. case body c of Inr (Some res) \<Rightarrow> passing thr res | _ \<Rightarrow> None) codes"

text \<open>The body ran to a result for a symbol: it neither raised nor left the pass early.\<close>

definition completed :: "(string \<Rightarrow> py_error + analysis_result option) \<Rightarrow> string \<Rightarrow> bool" where
  "completed body c = (case body c of Inr (Some res) \<Rightarrow> True | _ \<Rightarrow> False)"

text \<open>The price source delivers a frame of 30 bars or more for a symbol.\<close>

definition healthy :: "(string \<Rightarrow> int \<Rightarrow> fetched) \<Rightarrow> int \<Rightarrow> string \<Rightarrow> bool" where
  "healthy get_price days c =
     (case get_price c days of Raises \<Rightarrow> False | Frame bars \<Rightarrow> 30 \<le> length bars)"

subsection \<open>Sample frames\<close>

definition quiet_bar :: bar where
  "quiet_bar = \<lparr>b_open = 10, b_high = 10, b_low = 10, b_close = 10, b_volume = 100\<rparr>"

text \<open>Twenty-eight quiet bars, a dip to 9 and a close at 12 on ten times the volume.\<close>

definition rally_bars :: "bar list" where
  "rally_bars = replicate 28 quiet_bar @
     [\<lparr>b_open = 10, b_high = 10, b_low = 9, b_close = 9, b_volume = 100\<rparr>,
      \<lparr>b_open = 9, b_high = 30, b_low = 9, b_close = 12, b_volume = 1000\<rparr>]"

text \<open>Thirty bars closing at 10, the last one with a long lower shadow.\<close>

definition hammer_bars :: "bar list" where
  "hammer_bars = replicate 29 quiet_bar @
     [\<lparr>b_open = 1005 / 100, b_high = 1005 / 100, b_low = 95 / 10, b_close = 10,
       b_volume = 100\<rparr>]"

definition flat_bars :: "bar list" where
  "flat_bars = replicate 30 quiet_bar"

text \<open>Closes 1, 2, ..., 30.\<close>

definition rising_bars :: "bar list" where
  "rising_bars =
     map (\<lambda>k. \<lparr>b_open = real k, b_high = real k, b_low = real k, b_close = real k,
               b_volume = 100\<rparr>) [1..<31]"

definition rows_of :: "bar list \<Rightarrow> row list" where
  "rows_of bars = fetch_data (\<lambda>code days. Frame bars) ''sh600000'' 120"

text \<open>
  A price source that has the rally frame for two symbols, raises for one and has ten
  bars for every other symbol; and a clock that stands still.
\<close>

definition mixed_source :: "string \<Rightarrow> int \<Rightarrow> fetched" where
  "mixed_source code days =
     (if code = ''sh600000'' \<or> code = ''sh600036'' then Frame rally_bars
      else if code = ''sz000001'' then Raises
      else Frame (take 10 rally_bars))"

definition fixed_clock :: "string \<Rightarrow> string" where
  "fixed_clock code = ''2026-01-05T15:00:00''"

text \<open>The bar of the specification's hammer scenario.\<close>

definition scenario_bar :: bar where
  "scenario_bar =
     \<lparr>b_open = 10, b_high = 1005 / 100, b_low = 95 / 10, b_close = 995 / 100, b_volume = 1000\<rparr>"

text \<open>A row whose MACD stands above its signal line and above zero, with RSI at 80.\<close>

definition level_row :: row where
  "level_row =
     \<lparr>b_open = 10, b_high = 11, b_low = 10, b_close = 11, b_volume = 100,
      returns = Fin (1 / 10),
      ind = Some \<lparr>MA5 = Fin 10, MA10 = Fin 10, MA20 = Fin 10, MA30 = Fin 10, MA60 = NaN,
                  MACD = Fin 1, MACD_signal = Fin (1 / 2), RSI = Fin 80,
                  BB_middle = Fin 10, BB_upper = Fin 12, BB_lower = Fin 8,
                  BB_position = Fin (3 / 4), pct_K = Fin 90, pct_D = Fin 85,
                  volume_ma5 = Fin 100, volume_ratio = Fin 1\<rparr>\<rparr>"

text \<open>The latest row one bar after a crossing day: MACD was below its signal line.\<close>

definition below_row :: row where
  "below_row =
     \<lparr>b_open = 10, b_high = 10, b_low = 10, b_close = 10, b_volume = 100,
      returns = Fin 0,
      ind = Some \<lparr>MA5 = Fin 10, MA10 = Fin 10, MA20 = Fin 10, MA30 = Fin 10, MA60 = NaN,
                  MACD = Fin (1 / 4), MACD_signal = Fin (1 / 2), RSI = Fin 80,
                  BB_middle = Fin 10, BB_upper = Fin 12, BB_lower = Fin 8,
                  BB_position = Fin (1 / 2), pct_K = Fin 90, pct_D = Fin 85,
                  volume_ma5 = Fin 100, volume_ratio = Fin 1\<rparr>\<rparr>"

section \<open>Properties of mods/stock\_analyzer.py: signals and confidence\<close>

lemma calculate_confidence_sum:
  "calculate_confidence s =
     min (min (score (trend s)) 30 + min (score (momentum s)) 30 + min (score (volume s)) 30
          + min (score (oscillators s)) 30 + min (score (patterns s)) 30) 100"
  by (simp add: calculate_confidence_def signal_values_def)

lemma analyze_signals_patterns: "patterns (analyze_signals latest prev) = Patterns [] 0"
  by (simp add: analyze_signals_def Let_def)

text \<open>
  C10. In mods/stock\_analyzer.py the patterns category of \<open>_analyze_signals\<close> is always the
  empty list with score 0, so the confidence is the capped sum of the trend, momentum,
  volume and oscillator scores alone.
\<close>

theorem patterns_never_score:
  "patterns (analyze_signals latest prev) = Patterns [] 0
   \<and> score (patterns (analyze_signals latest prev)) = 0
   \<and> calculate_confidence (analyze_signals latest prev) =
       min (min (score (trend (analyze_signals latest prev))) 30
          + min (score (momentum (analyze_signals latest prev))) 30
          + min (score (volume (analyze_signals latest prev))) 30
          + min (score (oscillators (analyze_signals latest prev))) 30) 100"
  by (simp add: calculate_confidence_sum analyze_signals_patterns)

theorem patterns_never_score_witness:
  "patterns (analyze_signals level_row below_row) = Patterns [] 0
   \<and> score (patterns (analyze_signals level_row below_row)) = 0
   \<and> calculate_confidence (analyze_signals level_row below_row) =
       min (min (score (trend (analyze_signals level_row below_row))) 30
          + min (score (momentum (analyze_signals level_row below_row))) 30
          + min (score (volume (analyze_signals level_row below_row))) 30
          + min (score (oscillators (analyze_signals level_row below_row))) 30) 100"
  by (rule patterns_never_score)

section \<open>Insufficient history\<close>

text \<open>
  C2. With fewer than 30 rows (the empty frame included) \<open>analyze\<close> returns the dict of
  \<open>_empty_result\<close>, and \<open>calculate_indicators\<close> returns False and leaves the frame as it
  was: no indicator column is added.
\<close>

theorem short_series_empty:
  assumes "length (df a) < 30"
  shows "analyze a now = Empty_result (stock_code a) now (Some False)
         \<and> calculate_indicators a = (False, a)"
  using assms by (simp add: analyze_def empty_result_def calculate_indicators_def)

lemma length_rows_of: "length (rows_of bars) = length bars"
  by (cases bars) (simp_all add: rows_of_def fetch_data_def pct_change_def)

theorem short_series_empty_witness:
  "length (df (StockAnalyzer (\<lambda>code days. Frame (take 29 rally_bars)) ''sh600000'' 120)) < 30
   \<and> analyze (StockAnalyzer (\<lambda>code days. Frame (take 29 rally_bars)) ''sh600000'' 120) ''t''
       = Empty_result ''sh600000'' ''t'' (Some False)
   \<and> analyze (StockAnalyzer (\<lambda>code days. Raises) ''sh600000'' 120) ''t''
       = Empty_result ''sh600000'' ''t'' (Some False)"
proof -
  let ?a = "StockAnalyzer (\<lambda>code days. Frame (take 29 rally_bars)) ''sh600000'' 120"
  let ?b = "StockAnalyzer (\<lambda>code days. Raises) ''sh600000'' 120"
  have la: "length (df ?a) < 30"
    using length_rows_of [of "take 29 rally_bars"]
    by (simp add: StockAnalyzer_def rows_of_def rally_bars_def)
  have lb: "length (df ?b) < 30"
    by (simp add: StockAnalyzer_def fetch_data_def)
  show ?thesis
    using la short_series_empty [OF la, of "''t''"] short_series_empty [OF lb, of "''t''"]
    by (simp add: StockAnalyzer_def)
qed

section \<open>The hammer rule of app2.py\<close>

lemma check_patterns_hammer:
  assumes "d \<noteq> []"
  shows "\<exists>ps n. check_patterns d = Patterns ps n \<and> (Hammer \<in> set ps \<longleftrightarrow> is_hammer (last d))"
  using assms by (simp add: check_patterns_def Let_def)

text \<open>
  C7, as amended. The rule is: lower shadow above twice the body and upper shadow below
  half the body, on the last row of the frame. For a last bar with open 10.00, low 9.50
  and close 9.95 the body is 0.05 and the lower shadow 0.45, so the bar is flagged exactly
  when its upper shadow is below 0.025, that is when its high is below 10.025. The bar of
  the scenario has high 10.05 and is not flagged.
\<close>

theorem hammer_scenario_rule:
  assumes "d \<noteq> []" and "b_open (last d) = 10" and "b_low (last d) = 95 / 10"
    and "b_close (last d) = 995 / 100"
  shows "(is_hammer (last d) \<longleftrightarrow> b_high (last d) < 10025 / 1000)
         \<and> (\<exists>ps n. check_patterns d = Patterns ps n
                \<and> (Hammer \<in> set ps \<longleftrightarrow> b_high (last d) < 10025 / 1000))"
proof -
  have h: "is_hammer (last d) \<longleftrightarrow> b_high (last d) < 10025 / 1000"
    using assms(2-4) by (auto simp add: is_hammer_def Let_def)
  from check_patterns_hammer [OF assms(1)] h show ?thesis by simp
qed

theorem hammer_scenario_rule_witness:
  "rows_of [scenario_bar] \<noteq> []
   \<and> b_open (last (rows_of [scenario_bar])) = 10
   \<and> b_low (last (rows_of [scenario_bar])) = 95 / 10
   \<and> b_close (last (rows_of [scenario_bar])) = 995 / 100
   \<and> b_high (last (rows_of [scenario_bar])) = 1005 / 100
   \<and> \<not> is_hammer (last (rows_of [scenario_bar]))
   \<and> check_patterns (rows_of [scenario_bar]) = Patterns [] 0"
proof -
  have r: "rows_of [scenario_bar] \<noteq> []"
    "b_open (last (rows_of [scenario_bar])) = 10"
    "b_low (last (rows_of [scenario_bar])) = 95 / 10"
    "b_close (last (rows_of [scenario_bar])) = 995 / 100"
    "b_high (last (rows_of [scenario_bar])) = 1005 / 100"
    by (simp_all add: rows_of_def fetch_data_def pct_change_def scenario_bar_def bar.defs)
  from hammer_scenario_rule [OF r(1-4)] r(5)
  have "\<not> is_hammer (last (rows_of [scenario_bar]))" by simp
  moreover from this have "check_patterns (rows_of [scenario_bar]) = Patterns [] 0"
    by (simp add: check_patterns_def Let_def is_morning_star_def rows_of_def fetch_data_def
        pct_change_def)
  ultimately show ?thesis using r by simp
qed

theorem hammer_scenario_counterexample:
  "\<not> is_hammer scenario_bar
   \<and> b_open scenario_bar = 10 \<and> b_high scenario_bar = 1005 / 100
   \<and> b_low scenario_bar = 95 / 10 \<and> b_close scenario_bar = 995 / 100
   \<and> min (b_close scenario_bar) (b_open scenario_bar) - b_low scenario_bar
       > 2 * \<bar>b_close scenario_bar - b_open scenario_bar\<bar>
   \<and> b_high scenario_bar - max (b_close scenario_bar) (b_open scenario_bar)
       = \<bar>b_close scenario_bar - b_open scenario_bar\<bar>"
  by (simp add: is_hammer_def scenario_bar_def Let_def)


section \<open>The MACD rule of the momentum category\<close>

text \<open>
  C5, as amended. The three analyzers differ. In mods/stock\_analyzer.py the MACD rule
  awards 15 exactly on a strict upward crossing (previous MACD at or below its signal,
  latest MACD above it) and nothing otherwise: there is no MACD-above-zero rule. In
  app2.py the crossing awards 25, and without a crossing a MACD above zero awards 15.
  In old/app.py the rule is the level test: 15 whenever the latest MACD is above its
  signal. In each the RSI rule adds 10 inside (30, 70) and 20 below 30.
\<close>

theorem momentum_macd_rules:
  "score (momentum (analyze_signals latest prev)) =
     rsi_points (row_get latest RSI (Fin 50))
     + (if crosses_up (row_get prev MACD (Fin 0)) (row_get prev MACD_signal (Fin 0))
                      (row_get latest MACD (Fin 0)) (row_get latest MACD_signal (Fin 0))
        then 15 else 0)
   \<and> score (app2_analyze_momentum li pri) =
     rsi_points (RSI li)
     + (if crosses_up (MACD pri) (MACD_signal pri) (MACD li) (MACD_signal li) then 25
        else if fgt (MACD li) (Fin 0) then 15 else 0)
   \<and> score (momentum (old_analyze_signals latest li)) =
     rsi_points (RSI li) + (if fgt (MACD li) (MACD_signal li) then 15 else 0)"
proof (intro conjI)
  show "score (momentum (analyze_signals latest prev)) =
     rsi_points (row_get latest RSI (Fin 50))
     + (if crosses_up (row_get prev MACD (Fin 0)) (row_get prev MACD_signal (Fin 0))
                      (row_get latest MACD (Fin 0)) (row_get latest MACD_signal (Fin 0))
        then 15 else 0)"
    by (simp add: analyze_signals_def Let_def rsi_points_def crosses_up_def)
  show "score (app2_analyze_momentum li pri) =
     rsi_points (RSI li)
     + (if crosses_up (MACD pri) (MACD_signal pri) (MACD li) (MACD_signal li) then 25
        else if fgt (MACD li) (Fin 0) then 15 else 0)"
    by (simp add: app2_analyze_momentum_def Let_def rsi_points_def crosses_up_def)
  show "score (momentum (old_analyze_signals latest li)) =
     rsi_points (RSI li) + (if fgt (MACD li) (MACD_signal li) then 15 else 0)"
    by (simp add: old_analyze_signals_def Let_def rsi_points_def)
qed

lemma level_row_values:
  "row_get level_row RSI (Fin 50) = Fin 80"
  "row_get level_row MACD (Fin 0) = Fin 1"
  "row_get level_row MACD_signal (Fin 0) = Fin (1 / 2)"
  "row_get below_row MACD (Fin 0) = Fin (1 / 4)"
  "row_get below_row MACD_signal (Fin 0) = Fin (1 / 2)"
  by (simp_all add: row_get_def level_row_def below_row_def)

theorem momentum_macd_rules_witness:
  "score (momentum (analyze_signals level_row below_row)) = 15
   \<and> score (momentum (analyze_signals level_row level_row)) = 0
   \<and> score (app2_analyze_momentum (the (ind level_row)) (the (ind below_row))) = 25
   \<and> score (app2_analyze_momentum (the (ind level_row)) (the (ind level_row))) = 15
   \<and> score (momentum (old_analyze_signals level_row (the (ind level_row)))) = 15"
proof -
  have i: "the (ind level_row) =
     \<lparr>MA5 = Fin 10, MA10 = Fin 10, MA20 = Fin 10, MA30 = Fin 10, MA60 = NaN,
      MACD = Fin 1, MACD_signal = Fin (1 / 2), RSI = Fin 80,
      BB_middle = Fin 10, BB_upper = Fin 12, BB_lower = Fin 8,
      BB_position = Fin (3 / 4), pct_K = Fin 90, pct_D = Fin 85,
      volume_ma5 = Fin 100, volume_ratio = Fin 1\<rparr>"
    by (simp add: level_row_def)
  have j: "the (ind below_row) =
     \<lparr>MA5 = Fin 10, MA10 = Fin 10, MA20 = Fin 10, MA30 = Fin 10, MA60 = NaN,
      MACD = Fin (1 / 4), MACD_signal = Fin (1 / 2), RSI = Fin 80,
      BB_middle = Fin 10, BB_upper = Fin 12, BB_lower = Fin 8,
      BB_position = Fin (1 / 2), pct_K = Fin 90, pct_D = Fin 85,
      volume_ma5 = Fin 100, volume_ratio = Fin 1\<rparr>"
    by (simp add: below_row_def)
  show ?thesis
    using momentum_macd_rules [of level_row below_row "the (ind level_row)" "the (ind below_row)"]
      momentum_macd_rules [of level_row level_row "the (ind level_row)" "the (ind level_row)"]
    by (simp add: level_row_values i j rsi_points_def crosses_up_def fle_def fgt_def)
qed

text \<open>
  The claim fails in mods/stock\_analyzer.py on a row whose MACD (1) is above zero and
  above its signal line (0.5) on both bars: no crossing, so the specification's rule
  awards 15, and the analyzer awards nothing. It fails in app2.py on a crossing, which
  awards 25, and in old/app.py on the same level row, where the level test awards 15
  without a crossing.
\<close>

theorem momentum_macd_counterexample:
  "\<not> crosses_up (row_get level_row MACD (Fin 0)) (row_get level_row MACD_signal (Fin 0))
                 (row_get level_row MACD (Fin 0)) (row_get level_row MACD_signal (Fin 0))
   \<and> fgt (row_get level_row MACD (Fin 0)) (Fin 0)
   \<and> rsi_points (row_get level_row RSI (Fin 50))
       + spec_macd_points (row_get level_row MACD (Fin 0)) (row_get level_row MACD_signal (Fin 0))
           (row_get level_row MACD (Fin 0)) (row_get level_row MACD_signal (Fin 0)) = 15
   \<and> score (momentum (analyze_signals level_row level_row)) = 0
   \<and> crosses_up (row_get below_row MACD (Fin 0)) (row_get below_row MACD_signal (Fin 0))
                 (row_get level_row MACD (Fin 0)) (row_get level_row MACD_signal (Fin 0))
   \<and> score (app2_analyze_momentum (the (ind level_row)) (the (ind below_row))) = 25
   \<and> score (momentum (old_analyze_signals level_row (the (ind level_row)))) = 15"
  by (simp add: level_row_values rsi_points_def spec_macd_points_def crosses_up_def fle_def
      fgt_def analyze_signals_def app2_analyze_momentum_def old_analyze_signals_def Let_def
      level_row_def below_row_def row_get_def)

section \<open>RSI\<close>

lemma fin_values_map_Fin: "fin_values (map Fin rs) = Some rs"
  by (induction rs) simp_all

lemma fin_values_SomeD: "fin_values xs = Some rs \<Longrightarrow> xs = map Fin rs"
proof (induction xs arbitrary: rs)
  case Nil
  then show ?case by simp
next
  case (Cons x xs)
  then show ?case by (cases x) (auto split: option.splits)
qed

lemma window_map: "window w (map f xs) i = map f (window w xs i)"
  by (simp add: window_def take_map drop_map)

lemma set_window: "set (window w xs i) \<subseteq> set xs"
  unfolding window_def by (meson set_drop_subset set_take_subset subset_trans)

lemma length_window: "w \<le> i + 1 \<Longrightarrow> i < length xs \<Longrightarrow> length (window w xs i) = w"
  by (simp add: window_def)

lemma length_rolling: "length (rolling w f xs) = length xs"
  by (simp add: rolling_def)

lemma rolling_nth:
  "i < length xs \<Longrightarrow>
   rolling w f xs ! i =
     (if i + 1 < w then NaN
      else (case fin_values (window w xs i) of None \<Rightarrow> NaN | Some rs \<Rightarrow> Fin (f rs)))"
  by (simp add: rolling_def)

lemma rolling_Fin_nth:
  "i < length cs \<Longrightarrow>
   rolling w f (map Fin cs) ! i = (if i + 1 < w then NaN else Fin (f (window w cs i)))"
  by (simp add: rolling_nth window_map fin_values_map_Fin)

lemma length_diff: "length (diff cs) = length cs"
  by (cases cs) (simp_all add: diff_def)

lemma diff_elem: "x \<in> set (diff cs) \<Longrightarrow> x = NaN \<or> (\<exists>r. x = Fin r)"
  by (cases cs) (auto simp add: diff_def set_zip)

lemma gain_elem:
  assumes "x \<in> set (where_or_zero (\<lambda>d. fgt d (Fin 0)) (diff cs))"
  shows "\<exists>g\<ge>0. x = Fin g"
proof -
  from assms obtain d where d: "d \<in> set (diff cs)"
    and x: "x = (if fgt d (Fin 0) then d else Fin 0)"
    by (auto simp add: where_or_zero_def)
  from diff_elem [OF d] show ?thesis
    using x by (auto simp add: fgt_def)
qed

lemma loss_elem:
  assumes "x \<in> set (map fneg (where_or_zero (\<lambda>d. flt d (Fin 0)) (diff cs)))"
  shows "\<exists>g\<ge>0. x = Fin g"
proof -
  from assms obtain d where d: "d \<in> set (diff cs)"
    and x: "x = fneg (if flt d (Fin 0) then d else Fin 0)"
    by (auto simp add: where_or_zero_def)
  from diff_elem [OF d] show ?thesis
    using x by auto
qed

lemma mean_nonneg: "(\<And>x. x \<in> set rs \<Longrightarrow> 0 \<le> x) \<Longrightarrow> 0 \<le> mean rs"
  by (simp add: mean_def sum_list_nonneg)

lemma rolling_mean_nonneg:
  assumes "\<And>x. x \<in> set xs \<Longrightarrow> \<exists>g\<ge>0. x = Fin g" and "i < length xs"
  shows "rolling_mean w xs ! i = NaN \<or> (\<exists>g\<ge>0. rolling_mean w xs ! i = Fin g)"
proof (cases "fin_values (window w xs i)")
  case None
  then show ?thesis using assms(2) by (simp add: rolling_mean_def rolling_nth)
next
  case (Some rs)
  then have eq: "window w xs i = map Fin rs" by (rule fin_values_SomeD)
  have "0 \<le> r" if "r \<in> set rs" for r
  proof -
    from that eq have "Fin r \<in> set (window w xs i)" by simp
    then have "Fin r \<in> set xs" using set_window [of w xs i] by auto
    from assms(1) [OF this] show ?thesis by auto
  qed
  then have "0 \<le> mean rs" by (rule mean_nonneg)
  then show ?thesis using assms(2) Some by (simp add: rolling_mean_def rolling_nth)
qed

lemma rsi_of_range:
  assumes "0 \<le> g" "0 \<le> l"
  shows "rsi_of (Fin g) (Fin l) = NaN
         \<or> (\<exists>r. rsi_of (Fin g) (Fin l) = Fin r \<and> 0 \<le> r \<and> r \<le> 100)"
proof (cases "l = 0")
  case True
  then show ?thesis using assms by (cases "g = 0") (simp_all add: rsi_of_def fsub_def)
next
  case False
  with assms have l: "0 < l" by simp
  have q: "0 \<le> g / l" using assms l by simp
  then have p: "0 < 1 + g / l" by linarith
  then have "1 + g / l \<noteq> 0" by linarith
  moreover have "100 / (1 + g / l) \<le> 100" using p q by (simp add: pos_divide_le_eq)
  moreover have "0 \<le> 100 / (1 + g / l)" using q by simp
  ultimately show ?thesis using False by (simp add: rsi_of_def fsub_def)
qed

lemma rsi_of_no_loss: "0 < g \<Longrightarrow> rsi_of (Fin g) (Fin 0) = Fin 100"
  by (simp add: rsi_of_def fsub_def)

lemma rsi_of_NaN: "rsi_of NaN l = NaN" "rsi_of g NaN = NaN"
  by (cases l; cases g; simp add: rsi_of_def fsub_def)+

lemma length_avg_gain: "length (avg_gain cs) = length cs"
  by (simp add: avg_gain_def rolling_mean_def length_rolling where_or_zero_def length_diff)

lemma length_avg_loss: "length (avg_loss cs) = length cs"
  by (simp add: avg_loss_def rolling_mean_def length_rolling where_or_zero_def length_diff)

lemma col_RSI_nth:
  "i < length cs \<Longrightarrow> col_RSI cs ! i = rsi_of (avg_gain cs ! i) (avg_loss cs ! i)"
  by (simp add: col_RSI_def length_avg_gain length_avg_loss)

lemma avg_gain_cases:
  assumes "i < length cs"
  shows "avg_gain cs ! i = NaN \<or> (\<exists>g\<ge>0. avg_gain cs ! i = Fin g)"
  unfolding avg_gain_def
  by (rule rolling_mean_nonneg [OF gain_elem]) (simp_all add: where_or_zero_def length_diff assms)

lemma avg_loss_cases:
  assumes "i < length cs"
  shows "avg_loss cs ! i = NaN \<or> (\<exists>g\<ge>0. avg_loss cs ! i = Fin g)"
  unfolding avg_loss_def
  by (rule rolling_mean_nonneg [OF loss_elem]) (simp_all add: where_or_zero_def length_diff assms)

lemma col_RSI_range:
  assumes "i < length cs"
  shows "rsi_in_range (col_RSI cs ! i)"
proof -
  consider "avg_gain cs ! i = NaN" | "avg_loss cs ! i = NaN"
    | g l where "avg_gain cs ! i = Fin g" "avg_loss cs ! i = Fin l" "0 \<le> g" "0 \<le> l"
    using avg_gain_cases [OF assms] avg_loss_cases [OF assms] by auto
  then show ?thesis
  proof cases
    case 1
    then show ?thesis by (simp add: col_RSI_nth [OF assms] rsi_in_range_def rsi_of_NaN)
  next
    case 2
    then show ?thesis by (simp add: col_RSI_nth [OF assms] rsi_in_range_def rsi_of_NaN)
  next
    case 3
    from rsi_of_range [OF 3(3) 3(4)] show ?thesis
      using 3(1) 3(2) by (auto simp add: col_RSI_nth [OF assms] rsi_in_range_def)
  qed
qed

text \<open>
  C4. The RSI that \<open>calculate_indicators\<close> stores for row \<open>i\<close> is absent (NaN) or lies in
  \<open>[0, 100]\<close>, never an infinity; and where the 14-bar average loss is 0 and the average
  gain is positive it is exactly 100: the quotient is \<open>+inf\<close>, and \<open>100 / (1 + inf)\<close> is 0.
\<close>

theorem rsi_bounded:
  assumes "i < length d"
  shows "rsi_in_range (RSI (indicators_at d i))
         \<and> (\<forall>g. avg_loss (closes d) ! i = Fin 0 \<and> avg_gain (closes d) ! i = Fin g \<and> 0 < g
                \<longrightarrow> RSI (indicators_at d i) = Fin 100)"
proof -
  from assms have i: "i < length (closes d)" by (simp add: closes_def)
  have "rsi_in_range (col_RSI (closes d) ! i)" by (rule col_RSI_range [OF i])
  moreover have "col_RSI (closes d) ! i = Fin 100"
    if "avg_loss (closes d) ! i = Fin 0" "avg_gain (closes d) ! i = Fin g" "0 < g" for g
    using that by (simp add: col_RSI_nth [OF i] rsi_of_no_loss)
  ultimately show ?thesis by (simp add: indicators_at_def)
qed

lemma rising_rows_gain_loss:
  "length (rows_of rising_bars) = 30"
  "avg_loss (closes (rows_of rising_bars)) ! 29 = Fin 0"
  "avg_gain (closes (rows_of rising_bars)) ! 29 = Fin 1"
  by code_simp+

lemma rally_rows_rsi: "col_RSI (closes (rows_of rally_bars)) ! 29 = Fin 75"
  by code_simp

theorem rsi_bounded_witness:
  "29 < length (rows_of rising_bars)
   \<and> avg_loss (closes (rows_of rising_bars)) ! 29 = Fin 0
   \<and> avg_gain (closes (rows_of rising_bars)) ! 29 = Fin 1
   \<and> RSI (indicators_at (rows_of rising_bars) 29) = Fin 100
   \<and> rsi_in_range (RSI (indicators_at (rows_of rising_bars) 29))"
proof -
  have l: "29 < length (rows_of rising_bars)" by (simp add: rising_rows_gain_loss)
  from rsi_bounded [OF l] show ?thesis
    using l by (auto simp add: rising_rows_gain_loss)
qed


section \<open>The enriched frame\<close>

lemma length_with_indicators: "length (with_indicators d) = length d"
  by (simp add: with_indicators_def)

lemma with_indicators_nth:
  "i < length d \<Longrightarrow> with_indicators d ! i = (d ! i)\<lparr>ind := Some (indicators_at d i)\<rparr>"
  by (simp add: with_indicators_def)

lemma last_with_indicators:
  assumes "d \<noteq> []"
  shows "last (with_indicators d) = (last d)\<lparr>ind := Some (indicators_at d (length d - 1))\<rparr>"
proof -
  from assms have n: "length d - 1 < length d" by (cases d) simp_all
  have "with_indicators d \<noteq> []" using assms by (simp add: with_indicators_def)
  then have "last (with_indicators d) = with_indicators d ! (length d - 1)"
    by (simp add: last_conv_nth length_with_indicators)
  also have "\<dots> = (d ! (length d - 1))\<lparr>ind := Some (indicators_at d (length d - 1))\<rparr>"
    by (rule with_indicators_nth [OF n])
  finally show ?thesis using assms by (simp add: last_conv_nth)
qed

lemma calculate_indicators_long:
  "30 \<le> length (df a) \<Longrightarrow> calculate_indicators a = (True, a\<lparr>df := with_indicators (df a)\<rparr>)"
  by (auto simp add: calculate_indicators_def)

lemma calculate_all_indicators_long:
  "30 \<le> length (df a)
   \<Longrightarrow> calculate_all_indicators a = (True, a\<lparr>df := with_indicators (df a)\<rparr>)"
  by (auto simp add: calculate_all_indicators_def)

lemma analyze_enriched:
  assumes "30 \<le> length (df a)"
  shows "analyze (snd (calculate_indicators a)) now =
           generate_result (a\<lparr>df := with_indicators (df a)\<rparr>) now
             (latest_row (df a)) (prev_row (df a))
             (analyze_signals (latest_row (df a)) (prev_row (df a)))
             (calculate_confidence (analyze_signals (latest_row (df a)) (prev_row (df a))))"
proof -
  from assms have ne: "df a \<noteq> []" by auto
  from assms have p: "length (df a) - 2 < length (df a)" by simp
  have l: "last (with_indicators (df a)) = latest_row (df a)"
    by (simp add: last_with_indicators [OF ne] latest_row_def)
  have q: "with_indicators (df a) ! (length (df a) - 2) = prev_row (df a)"
    by (simp add: with_indicators_nth [OF p] prev_row_def)
  have w: "with_indicators (df a) \<noteq> []" using ne by (simp add: with_indicators_def)
  show ?thesis
    using assms w
    by (simp add: calculate_indicators_long analyze_def length_with_indicators l q Let_def)
qed

lemma generate_result_fields:
  "\<exists>r. generate_result a now l p s c = Populated r
       \<and> rep_stock_code r = stock_code a
       \<and> confidence_score (rep_analysis r) = c
       \<and> detailed_signals (rep_analysis r) = s
       \<and> rep_success r = Some True
       \<and> rep_BB_position (rep_indicators r) = py_round (row_get l BB_position (Fin (1 / 2))) 3"
  by (simp add: generate_result_def Let_def split: prod.splits)


section \<open>Bollinger bands\<close>

lemma window_last_elem:
  assumes "w \<le> i + 1" and "i < length cs" and "0 < w"
  shows "cs ! i \<in> set (window w cs i)"
proof -
  have "window w cs i ! (w - 1) = cs ! i"
    using assms by (simp add: window_def)
  moreover have "w - 1 < length (window w cs i)"
    using assms by (simp add: length_window)
  ultimately show ?thesis by (metis nth_mem)
qed

lemma sample_std_nonneg:
  assumes "2 \<le> length rs"
  shows "0 \<le> sample_std rs"
proof -
  have "0 \<le> sum_list (map (\<lambda>x. (x - mean rs)\<^sup>2) rs)"
    by (rule sum_list_nonneg) auto
  moreover from assms have "0 \<le> real (length rs) - 1" by simp
  ultimately have "0 \<le> sample_var rs"
    unfolding sample_var_def by (rule divide_nonneg_nonneg)
  then show ?thesis by (simp add: sample_std_def)
qed

lemma fsub_Fin: "fsub (Fin a) (Fin b) = Fin (a - b)"
  by (simp add: fsub_def)

lemma col_BB_middle_nth:
  "i < length cs \<Longrightarrow>
   col_BB_middle cs ! i = (if i + 1 < 20 then NaN else Fin (mean (window 20 cs i)))"
  by (simp add: col_BB_middle_def rolling_mean_def rolling_Fin_nth)

lemma col_bb_std_nth:
  "i < length cs \<Longrightarrow>
   col_bb_std cs ! i = (if i + 1 < 20 then NaN else Fin (sample_std (window 20 cs i)))"
  by (simp add: col_bb_std_def rolling_std_def rolling_Fin_nth)

lemma length_col_BB_middle: "length (col_BB_middle cs) = length cs"
  by (simp add: col_BB_middle_def rolling_mean_def length_rolling)

lemma length_col_bb_std: "length (col_bb_std cs) = length cs"
  by (simp add: col_bb_std_def rolling_std_def length_rolling)

lemma col_BB_upper_nth:
  "i < length cs \<Longrightarrow>
   col_BB_upper cs ! i =
     (if i + 1 < 20 then NaN
      else Fin (mean (window 20 cs i) + sample_std (window 20 cs i) * 2))"
  by (simp add: col_BB_upper_def length_col_BB_middle length_col_bb_std col_BB_middle_nth
      col_bb_std_nth)

lemma col_BB_lower_nth:
  "i < length cs \<Longrightarrow>
   col_BB_lower cs ! i =
     (if i + 1 < 20 then NaN
      else Fin (mean (window 20 cs i) - sample_std (window 20 cs i) * 2))"
  by (simp add: col_BB_lower_def length_col_BB_middle length_col_bb_std col_BB_middle_nth
      col_bb_std_nth fsub_def)

lemma length_col_BB_upper: "length (col_BB_upper cs) = length cs"
  by (simp add: col_BB_upper_def length_col_BB_middle length_col_bb_std)

lemma length_col_BB_lower: "length (col_BB_lower cs) = length cs"
  by (simp add: col_BB_lower_def length_col_BB_middle length_col_bb_std)

lemma col_BB_position_nth:
  "i < length cs \<Longrightarrow>
   col_BB_position cs ! i =
     bb_position_of (Fin (cs ! i)) (col_BB_lower cs ! i) (col_BB_upper cs ! i)"
  by (simp add: col_BB_position_def length_col_BB_upper length_col_BB_lower)

lemma mean_replicate: "0 < n \<Longrightarrow> mean (replicate n c) = c"
  by (simp add: mean_def sum_list_replicate)

lemma sample_std_replicate: "sample_std (replicate n c) = 0"
  by (cases "n = 0") (simp_all add: sample_std_def sample_var_def mean_replicate
      sum_list_replicate)

text \<open>On a window of equal closes both bands are that close, and the position is \<open>0 / 0\<close>.\<close>

lemma flat_window_bands:
  assumes i: "i < length cs" and w: "19 \<le> i" and f: "window 20 cs i = replicate 20 c"
  shows "col_BB_upper cs ! i = Fin c" and "col_BB_lower cs ! i = Fin c"
    and "col_BB_position cs ! i = NaN"
proof -
  show u: "col_BB_upper cs ! i = Fin c" and l: "col_BB_lower cs ! i = Fin c"
    using w by (simp_all add: col_BB_upper_nth [OF i] col_BB_lower_nth [OF i] f mean_replicate
        sample_std_replicate)
  have "cs ! i \<in> set (window 20 cs i)"
    using w i by (intro window_last_elem) simp_all
  then have "cs ! i = c" by (simp add: f)
  then show "col_BB_position cs ! i = NaN"
    by (simp add: col_BB_position_nth [OF i] u l bb_position_of_def fsub_def)
qed





text \<open>A close above the middle band is never in the lower 30 percent of the band.\<close>

lemma above_middle_not_low:
  assumes i: "i < length cs" and w: "19 \<le> i"
    and c: "mean (window 20 cs i) < cs ! i"
  shows "\<not> flt (col_BB_position cs ! i) (Fin (3 / 10))"
proof -
  let ?m = "mean (window 20 cs i)"
  let ?s = "sample_std (window 20 cs i)"
  from w have w': "\<not> i + 1 < 20" by simp
  then have len: "length (window 20 cs i) = 20" using i by (simp add: length_window)
  then have s: "0 \<le> ?s" by (intro sample_std_nonneg) simp
  have u: "col_BB_upper cs ! i = Fin (?m + ?s * 2)"
    using w' by (simp add: col_BB_upper_nth [OF i])
  have l: "col_BB_lower cs ! i = Fin (?m - ?s * 2)"
    using w' by (simp add: col_BB_lower_nth [OF i])
  have d: "(?m + ?s * 2) - (?m - ?s * 2) = ?s * 4" by simp
  have p: "col_BB_position cs ! i = fdiv (Fin (cs ! i - (?m - ?s * 2))) (Fin (?s * 4))"
    by (simp only: col_BB_position_nth [OF i] u l bb_position_of_def fsub_Fin d)
  show ?thesis
  proof (cases "?s = 0")
    case True
    then show ?thesis using c by (simp add: p)
  next
    case False
    with s have sp: "0 < ?s" by simp
    have "\<not> (cs ! i - (?m - ?s * 2)) / (?s * 4) < 3 / 10"
    proof
      assume "(cs ! i - (?m - ?s * 2)) / (?s * 4) < 3 / 10"
      then have "cs ! i - (?m - ?s * 2) < 3 / 10 * (?s * 4)"
        using sp by (simp add: pos_divide_less_eq)
      with c sp show False by simp
    qed
    then show ?thesis using False by (simp add: p)
  qed
qed


section \<open>app2.py on an enriched frame\<close>

lemma app2_analyze_signals_enriched:
  assumes "30 \<le> length d"
  shows "app2_analyze_signals (with_indicators d) = Inr (app2_signals_at d)"
proof -
  from assms have ne: "d \<noteq> []" by auto
  from assms have p: "length d - 2 < length d" and b: "length d - 6 < length d" by simp_all
  have l: "last (with_indicators d) = latest_row d"
    by (simp add: last_with_indicators [OF ne] latest_row_def)
  have q: "with_indicators d ! (length d - 2) = prev_row d"
    by (simp add: with_indicators_nth [OF p] prev_row_def)
  have r: "with_indicators d ! (length d - 6) = back_row d"
    by (simp add: with_indicators_nth [OF b] back_row_def)
  show ?thesis
    by (simp add: app2_analyze_signals_def length_with_indicators l q r Let_def
        app2_signals_at_def latest_row_def prev_row_def back_row_def)
qed

lemma app2_analyze_enriched:
  assumes "30 \<le> length (df a)"
  shows "\<exists>r. app2_analyze (snd (calculate_all_indicators a)) now = Inr (Populated r)
       \<and> confidence_score (rep_analysis r) = app2_calculate_confidence (app2_signals_at (df a))
       \<and> detailed_signals (rep_analysis r) = app2_signals_at (df a)
       \<and> rep_BB_position (rep_indicators r)
           = py_round (BB_position (indicators_at (df a) (length (df a) - 1))) 3"
proof -
  from assms have ne: "df a \<noteq> []" by auto
  have l: "last (with_indicators (df a)) = latest_row (df a)"
    by (simp add: last_with_indicators [OF ne] latest_row_def)
  have w: "with_indicators (df a) \<noteq> []" using ne by (simp add: with_indicators_def)
  show ?thesis
    using assms w
    by (simp add: calculate_all_indicators_long app2_analyze_def length_with_indicators
        app2_analyze_signals_enriched app2_generate_result_def l latest_row_def Let_def
        split: prod.splits)
qed


lemma latest_row_get: "row_get (latest_row d) f dflt = f (indicators_at d (length d - 1))"
  by (simp add: row_get_def latest_row_def)

lemma prev_row_get: "row_get (prev_row d) f dflt = f (indicators_at d (length d - 2))"
  by (simp add: row_get_def prev_row_def)

lemma latest_row_bar:
  "b_close (latest_row d) = b_close (last d)"
  "b_volume (latest_row d) = b_volume (last d)"
  by (simp_all add: latest_row_def)

lemma prev_row_bar:
  "b_close (prev_row d) = b_close (d ! (length d - 2))"
  "b_volume (prev_row d) = b_volume (d ! (length d - 2))"
  by (simp_all add: prev_row_def)



lemma flat_closes:
  "closes (rows_of flat_bars) = replicate 30 10"
  "closes (rows_of hammer_bars) = replicate 30 10"
  by code_simp+






section \<open>Evaluating the columns of the sample frames\<close>

lemma ewm_from_replicate: "ewm_from a c (replicate n c) = replicate n c"
  by (induction n) (simp_all add: algebra_simps)

lemma ewm_from_append:
  "ewm_from a y (xs @ ys) = ewm_from a y xs @ ewm_from a (last (y # ewm_from a y xs)) ys"
  by (induction xs arbitrary: y) simp_all

lemma ewm_mean_flat_then:
  "ewm_mean s (replicate (Suc n) c @ ys) = replicate (Suc n) c @ ewm_from (2 / (real s + 1)) c ys"
  by (simp add: ewm_mean_def ewm_from_append ewm_from_replicate)

lemma ewm_mean_replicate: "ewm_mean s (replicate n c) = replicate n c"
  by (cases n) (simp_all add: ewm_mean_def ewm_from_replicate)

lemma col_MACD_flat: "col_MACD (replicate n c) = replicate n 0"
  by (simp add: col_MACD_def ewm_mean_replicate)

lemma col_MACD_signal_flat: "col_MACD_signal (replicate n c) = replicate n 0"
  by (simp add: col_MACD_signal_def col_MACD_flat ewm_mean_replicate)

lemma is_hammer_ind: "is_hammer (r\<lparr>ind := x\<rparr>) = is_hammer r"
  by (simp add: is_hammer_def)

lemma is_morning_star_ind:
  "is_morning_star (r1\<lparr>ind := x1\<rparr>) (r2\<lparr>ind := x2\<rparr>) (r3\<lparr>ind := x3\<rparr>)
   = is_morning_star r1 r2 r3"
  by (simp add: is_morning_star_def)

lemma check_patterns_alt:
  assumes "5 \<le> length d"
  shows "check_patterns d =
     (let p1 = (if is_hammer (last d) then [Hammer] else []);
          p2 = (if is_morning_star (d ! (length d - 3)) (d ! (length d - 2)) (last d)
                then p1 @ [Morning_star] else p1)
      in Patterns p2 (int (length p2) * 10))"
proof -
  let ?n = "length d"
  from assms have ne: "d \<noteq> []" by auto
  have l0: "last (drop (?n - 5) d) = last d" using ne by simp
  have len: "length (drop (?n - 5) d) = 5" using assms by simp
  have e: "?n - 5 + 2 = ?n - 3" "?n - 5 + 3 = ?n - 2" using assms by simp_all
  have "drop (?n - 5) d ! 2 = d ! (?n - 5 + 2)" using assms by (intro nth_drop) simp
  then have a0: "drop (?n - 5) d ! (5 - 3) = d ! (?n - 3)" by (simp only: e) simp
  have "drop (?n - 5) d ! 3 = d ! (?n - 5 + 3)" using assms by (intro nth_drop) simp
  then have b0: "drop (?n - 5) d ! (5 - 2) = d ! (?n - 2)" by (simp only: e) simp
  have g: "(5::nat) \<ge> 3" by simp
  show ?thesis
    by (simp only: check_patterns_def Let_def len l0 a0 b0 g simp_thms)
qed

text \<open>The pattern check reads the bar fields only, so the indicator columns do not change it.\<close>

lemma check_patterns_enriched:
  assumes "5 \<le> length d"
  shows "check_patterns (with_indicators d) = check_patterns d"
proof -
  from assms have ne: "d \<noteq> []" by auto
  from assms have i: "length d - 3 < length d" "length d - 2 < length d" by simp_all
  have w: "5 \<le> length (with_indicators d)" using assms by (simp add: length_with_indicators)
  show ?thesis
    by (simp only: check_patterns_alt [OF w] check_patterns_alt [OF assms]
        length_with_indicators with_indicators_nth [OF i(1)] with_indicators_nth [OF i(2)]
        last_with_indicators [OF ne] is_hammer_ind is_morning_star_ind)
qed

lemma hammer_cols:
  "length (rows_of hammer_bars) = 30"
  "col_MA 5 (closes (rows_of hammer_bars)) ! 29 = Fin 10"
  "col_MA 10 (closes (rows_of hammer_bars)) ! 29 = Fin 10"
  "col_MA 20 (closes (rows_of hammer_bars)) ! 29 = Fin 10"
  "col_MA 5 (closes (rows_of hammer_bars)) ! 24 = Fin 10"
  "col_RSI (closes (rows_of hammer_bars)) ! 29 = NaN"
  by code_simp+

lemma hammer_cols_volume:
  "col_volume_ratio (rows_of hammer_bars) ! 29 = Fin 1"
  "col_volume_ma5 (rows_of hammer_bars) ! 29 = Fin 100"
  "col_K (rows_of hammer_bars) ! 29 = Fin (1000 / 11)"
  "col_D (rows_of hammer_bars) ! 29 = NaN"
  by code_simp+

lemma hammer_bar_fields:
  "b_close (last (rows_of hammer_bars)) = 10"
  "b_close (rows_of hammer_bars ! 28) = 10"
  "b_volume (last (rows_of hammer_bars)) = 100"
  "b_volume (rows_of hammer_bars ! 28) = 100"
  "check_patterns (rows_of hammer_bars) = Patterns [Hammer] 10"
  by code_simp+

lemma hammer_cols_macd:
  "col_MACD (closes (rows_of hammer_bars)) ! 29 = 0"
  "col_MACD (closes (rows_of hammer_bars)) ! 28 = 0"
  "col_MACD_signal (closes (rows_of hammer_bars)) ! 29 = 0"
  "col_MACD_signal (closes (rows_of hammer_bars)) ! 28 = 0"
  by (simp_all add: flat_closes col_MACD_flat col_MACD_signal_flat)

lemma hammer_bb_position: "col_BB_position (closes (rows_of hammer_bars)) ! 29 = NaN"
proof -
  have w: "window 20 (closes (rows_of hammer_bars)) 29 = replicate 20 10"
    by (simp add: flat_closes window_def)
  have i: "29 < length (closes (rows_of hammer_bars))" by (simp add: flat_closes)
  show ?thesis by (rule flat_window_bands(3) [OF i _ w]) simp
qed


section \<open>Confidence\<close>

lemma analyze_signals_trend_score:
  "score (trend (analyze_signals latest prev)) =
     (if fgt (Fin (b_close latest)) (row_get latest MA20 (Fin 0)) then 15 else 0)
     + (if fgt (row_get latest MA5 (Fin 0)) (row_get latest MA10 (Fin 0)) \<and>
           fgt (row_get latest MA10 (Fin 0)) (row_get latest MA20 (Fin 0)) then 10 else 0)"
  by (simp add: analyze_signals_def Let_def)

lemma analyze_signals_momentum_score:
  "score (momentum (analyze_signals latest prev)) =
     rsi_points (row_get latest RSI (Fin 50))
     + (if crosses_up (row_get prev MACD (Fin 0)) (row_get prev MACD_signal (Fin 0))
                      (row_get latest MACD (Fin 0)) (row_get latest MACD_signal (Fin 0))
        then 15 else 0)"
  by (simp add: analyze_signals_def Let_def rsi_points_def crosses_up_def)

lemma analyze_signals_volume_score:
  "score (volume (analyze_signals latest prev)) =
     (if fgt (row_get latest volume_ratio (Fin 1)) (Fin (3 / 2)) then 15 else 0)
     + (if b_close latest > b_close prev \<and> b_volume latest > b_volume prev then 10 else 0)"
  by (simp add: analyze_signals_def Let_def)

lemma analyze_signals_oscillators_score:
  "score (oscillators (analyze_signals latest prev)) =
     (if flt (row_get latest pct_K (Fin 50)) (Fin 20) then 15 else 0)
     + (if flt (row_get latest BB_position (Fin (1 / 2))) (Fin (3 / 10)) then 10 else 0)"
  by (simp add: analyze_signals_def Let_def)

lemma analyze_signals_scores_nonneg:
  "0 \<le> score (trend (analyze_signals latest prev))"
  "0 \<le> score (momentum (analyze_signals latest prev))"
  "0 \<le> score (volume (analyze_signals latest prev))"
  "0 \<le> score (oscillators (analyze_signals latest prev))"
  by (simp_all add: analyze_signals_trend_score analyze_signals_momentum_score
      analyze_signals_volume_score analyze_signals_oscillators_score rsi_points_def)

lemma spec_confidence_nonneg:
  assumes "0 \<le> score (trend s)" "0 \<le> score (momentum s)" "0 \<le> score (volume s)"
    "0 \<le> score (oscillators s)" "0 \<le> score (patterns s)"
  shows "calculate_confidence s = spec_confidence s"
proof -
  let ?t = "min (score (trend s)) 30 + min (score (momentum s)) 30 + min (score (volume s)) 30
          + min (score (oscillators s)) 30 + min (score (patterns s)) 30"
  have "0 \<le> ?t" using assms by (intro add_nonneg_nonneg) simp_all
  then have "max 0 (min 100 ?t) = min ?t 100" by (simp add: min_def max_def)
  moreover have "spec_confidence s = max 0 (min 100 ?t)"
    by (simp only: spec_confidence_def list.map sum_list.Cons sum_list.Nil add_0_right add.assoc)
  ultimately show ?thesis by (simp only: calculate_confidence_sum)
qed

text \<open>
  In mods/stock\_analyzer.py the confidence of every populated result is the
  specification's capped sum, and lies in \<open>[0, 100]\<close>.
\<close>

lemma mods_confidence_is_spec:
  assumes "30 \<le> length (df a)"
  shows "\<exists>r. analyze a now = Populated r
       \<and> confidence_score (rep_analysis r) = spec_confidence (detailed_signals (rep_analysis r))
       \<and> 0 \<le> confidence_score (rep_analysis r) \<and> confidence_score (rep_analysis r) \<le> 100"
proof -
  let ?l = "last (df a)" and ?p = "df a ! (length (df a) - 2)"
  let ?s = "analyze_signals ?l ?p"
  from assms have ne: "df a \<noteq> []" by auto
  have a: "analyze a now = generate_result a now ?l ?p ?s (calculate_confidence ?s)"
    using assms ne by (simp add: analyze_def Let_def)
  obtain r where r: "generate_result a now ?l ?p ?s (calculate_confidence ?s) = Populated r"
    and c: "confidence_score (rep_analysis r) = calculate_confidence ?s"
    and s: "detailed_signals (rep_analysis r) = ?s"
    using generate_result_fields by blast
  have e: "calculate_confidence ?s = spec_confidence ?s"
    by (rule spec_confidence_nonneg)
      (simp_all add: analyze_signals_scores_nonneg analyze_signals_patterns)
  have "0 \<le> spec_confidence ?s" "spec_confidence ?s \<le> 100"
    by (simp_all add: spec_confidence_def)
  then show ?thesis using a r c s e by simp
qed

lemma app2_confidence_formula:
  "app2_calculate_confidence s =
     min (min (score (trend s)) 30 + min (score (momentum s)) 30 + min (score (volume s)) 30
          + min (score (oscillators s)) 30 + min (score (patterns s)) 30
          + score (patterns s)) 100"
  by (simp add: app2_calculate_confidence_def signal_values_def Let_def)

lemma hammer_latest_fields:
  "MA5 (indicators_at (rows_of hammer_bars) 29) = Fin 10"
  "MA10 (indicators_at (rows_of hammer_bars) 29) = Fin 10"
  "MA20 (indicators_at (rows_of hammer_bars) 29) = Fin 10"
  "MA5 (indicators_at (rows_of hammer_bars) 24) = Fin 10"
  "RSI (indicators_at (rows_of hammer_bars) 29) = NaN"
  "MACD (indicators_at (rows_of hammer_bars) 29) = Fin 0"
  "MACD (indicators_at (rows_of hammer_bars) 28) = Fin 0"
  "MACD_signal (indicators_at (rows_of hammer_bars) 29) = Fin 0"
  "MACD_signal (indicators_at (rows_of hammer_bars) 28) = Fin 0"
  "volume_ratio (indicators_at (rows_of hammer_bars) 29) = Fin 1"
  "volume_ma5 (indicators_at (rows_of hammer_bars) 29) = Fin 100"
  "pct_K (indicators_at (rows_of hammer_bars) 29) = Fin (1000 / 11)"
  "pct_D (indicators_at (rows_of hammer_bars) 29) = NaN"
  "BB_position (indicators_at (rows_of hammer_bars) 29) = NaN"
  by (simp_all add: indicators_at_def hammer_cols hammer_cols_volume hammer_cols_macd
      hammer_bb_position)

lemma hammer_signals:
  "app2_signals_at (rows_of hammer_bars) =
     \<lparr>trend = Reasons [] 0, momentum = Reasons [] 0, volume = Reasons [] 0,
      oscillators = Reasons [] 0, patterns = Patterns [Hammer] 10\<rparr>"
proof -
  let ?d = "rows_of hammer_bars"
  have n: "length ?d - 1 = 29" "length ?d - 2 = 28" "length ?d - 6 = 24"
    by (simp_all add: hammer_cols)
  have t: "app2_analyze_trend (latest_row ?d) (indicators_at ?d 29)
             (MA5 (indicators_at ?d 24)) = Reasons [] 0"
    by (simp add: app2_analyze_trend_def hammer_latest_fields latest_row_def hammer_bar_fields
        fgt_def fsub_def Let_def)
  have m: "app2_analyze_momentum (indicators_at ?d 29) (indicators_at ?d 28) = Reasons [] 0"
    by (simp add: app2_analyze_momentum_def hammer_latest_fields fgt_def fle_def Let_def)
  have v: "app2_analyze_volume (latest_row ?d) (prev_row ?d) (indicators_at ?d 29)
             = Reasons [] 0"
    by (simp add: app2_analyze_volume_def hammer_latest_fields latest_row_def prev_row_def n
        hammer_bar_fields fgt_def Let_def)
  have o: "app2_analyze_oscillators (indicators_at ?d 29) = Reasons [] 0"
    by (simp add: app2_analyze_oscillators_def hammer_latest_fields fgt_def Let_def)
  have p: "check_patterns (with_indicators ?d) = Patterns [Hammer] 10"
    by (simp add: check_patterns_enriched hammer_cols hammer_bar_fields)
  show ?thesis
    by (simp only: app2_signals_at_def n t m v o p)
qed

text \<open>
  C1 fails in app2.py. On thirty bars closing at 10 whose last bar is a hammer (open and
  high 10.05, low 9.50) the only category with a score is patterns, with 10. The
  specification's confidence is 10; \<open>_calculate_confidence\<close> of app2.py counts the patterns
  score in its loop and once more after it, and \<open>analyze\<close> returns 20.
\<close>

theorem app2_counts_patterns_twice:
  "\<exists>r. app2_analyze (snd (calculate_all_indicators
            (StockAnalyzer (\<lambda>code days. Frame hammer_bars) ''sh600000'' 120))) ''t''
          = Inr (Populated r)
      \<and> detailed_signals (rep_analysis r) =
          \<lparr>trend = Reasons [] 0, momentum = Reasons [] 0, volume = Reasons [] 0,
           oscillators = Reasons [] 0, patterns = Patterns [Hammer] 10\<rparr>
      \<and> spec_confidence (detailed_signals (rep_analysis r)) = 10
      \<and> confidence_score (rep_analysis r) = 20"
proof -
  let ?a = "StockAnalyzer (\<lambda>code days. Frame hammer_bars) ''sh600000'' 120"
  have d: "df ?a = rows_of hammer_bars" by (simp add: StockAnalyzer_def rows_of_def)
  have len: "30 \<le> length (df ?a)" by (simp add: d hammer_cols)
  from app2_analyze_enriched [OF len, of "''t''"]
  obtain r where r: "app2_analyze (snd (calculate_all_indicators ?a)) ''t'' = Inr (Populated r)"
    and c: "confidence_score (rep_analysis r)
            = app2_calculate_confidence (app2_signals_at (rows_of hammer_bars))"
    and s: "detailed_signals (rep_analysis r) = app2_signals_at (rows_of hammer_bars)"
    unfolding d by blast
  have "app2_calculate_confidence (app2_signals_at (rows_of hammer_bars)) = 20"
    by (simp add: hammer_signals app2_confidence_formula)
  moreover have "spec_confidence (app2_signals_at (rows_of hammer_bars)) = 10"
    by (simp add: hammer_signals spec_confidence_def)
  ultimately show ?thesis using r c s by (simp add: hammer_signals)
qed


section \<open>The rally frame in mods/stock\_analyzer.py\<close>

lemma rally_closes: "closes (rows_of rally_bars) = replicate 28 10 @ [9, 12]"
  by code_simp

lemma rally_cols:
  "length (rows_of rally_bars) = 30"
  "col_MA 5 (closes (rows_of rally_bars)) ! 29 = Fin (51 / 5)"
  "col_MA 10 (closes (rows_of rally_bars)) ! 29 = Fin (101 / 10)"
  "col_MA 20 (closes (rows_of rally_bars)) ! 29 = Fin (201 / 20)"
  "col_K (rows_of rally_bars) ! 29 = Fin (100 / 7)"
  "col_volume_ratio (rows_of rally_bars) ! 29 = Fin (25 / 7)"
  by code_simp+

lemma rally_bar_fields:
  "b_close (last (rows_of rally_bars)) = 12"
  "b_close (rows_of rally_bars ! 28) = 9"
  "b_volume (last (rows_of rally_bars)) = 1000"
  "b_volume (rows_of rally_bars ! 28) = 100"
  "mean (window 20 (closes (rows_of rally_bars)) 29) = 201 / 20"
  "closes (rows_of rally_bars) ! 29 = 12"
  by code_simp+

lemma rally_macd: "col_MACD (closes (rows_of rally_bars)) = replicate 28 0 @ [- (28 / 351), 12068 / 123201]"
proof -
  have r: "replicate 28 (10::real) = replicate (Suc 27) 10" by simp
  show ?thesis
    by (simp only: rally_closes r col_MACD_def ewm_mean_flat_then) simp
qed

lemma rally_macd_signal:
  "col_MACD_signal (closes (rows_of rally_bars))
   = replicate 28 0 @ [- (28 / 1755), 21028 / 3080025]"
proof -
  have r: "replicate 28 (0::real) = replicate (Suc 27) 0" by simp
  show ?thesis
    by (simp only: col_MACD_signal_def rally_macd r ewm_mean_flat_then) simp
qed

lemma rally_macd_values:
  "col_MACD (closes (rows_of rally_bars)) ! 28 = - (28 / 351)"
  "col_MACD (closes (rows_of rally_bars)) ! 29 = 12068 / 123201"
  "col_MACD_signal (closes (rows_of rally_bars)) ! 28 = - (28 / 1755)"
  "col_MACD_signal (closes (rows_of rally_bars)) ! 29 = 21028 / 3080025"
  by (simp_all add: rally_macd rally_macd_signal nth_append)

lemma rally_bb_not_low:
  "\<not> flt (col_BB_position (closes (rows_of rally_bars)) ! 29) (Fin (3 / 10))"
proof -
  have i: "29 < length (closes (rows_of rally_bars))" by (simp add: rally_closes)
  show ?thesis
    by (rule above_middle_not_low [OF i]) (simp_all add: rally_bar_fields)
qed

lemma rally_confidence:
  "calculate_confidence
     (analyze_signals (latest_row (rows_of rally_bars)) (prev_row (rows_of rally_bars))) = 80"
proof -
  let ?d = "rows_of rally_bars"
  have n: "length ?d = 30" by (simp add: rally_cols)
  have t: "score (trend (analyze_signals (latest_row ?d) (prev_row ?d))) = 25"
    by (simp add: analyze_signals_trend_score latest_row_get n indicators_at_def rally_cols
        latest_row_bar rally_bar_fields fgt_def)
  have m: "score (momentum (analyze_signals (latest_row ?d) (prev_row ?d))) = 15"
    by (simp add: analyze_signals_momentum_score latest_row_get prev_row_get n indicators_at_def
        rally_rows_rsi rally_macd_values rsi_points_def crosses_up_def fgt_def fle_def)
  have v: "score (volume (analyze_signals (latest_row ?d) (prev_row ?d))) = 25"
    by (simp add: analyze_signals_volume_score latest_row_get n indicators_at_def rally_cols
        latest_row_bar prev_row_bar rally_bar_fields fgt_def)
  have o: "score (oscillators (analyze_signals (latest_row ?d) (prev_row ?d))) = 15"
    by (simp add: analyze_signals_oscillators_score latest_row_get n indicators_at_def
        rally_cols rally_bb_not_low)
  show ?thesis
    by (simp add: calculate_confidence_sum t m v o analyze_signals_patterns)
qed

lemma fetch_data_rows:
  "fetch_data get_price code days =
     (case get_price code days of Raises \<Rightarrow> [] | Frame bars \<Rightarrow> rows_of bars)"
  by (simp add: fetch_data_def rows_of_def split: fetched.splits)

lemma rally_symbol:
  assumes "get_price code days = Frame rally_bars"
  shows "\<exists>r. analyze_symbol get_price clock days code = Inr (Some (Populated r))
       \<and> conf r = 80 \<and> rep_success r = Some True \<and> rep_stock_code r = code"
proof -
  let ?a = "StockAnalyzer get_price code days"
  have d: "df ?a = rows_of rally_bars"
    by (simp add: StockAnalyzer_def fetch_data_rows assms)
  have len: "30 \<le> length (df ?a)" by (simp add: d rally_cols)
  have ne: "df ?a \<noteq> []" using len by auto
  have s: "analyze_symbol get_price clock days code
           = Inr (Some (analyze (snd (calculate_indicators ?a)) (clock code)))"
    using len ne by (simp add: analyze_symbol_def Let_def calculate_indicators_long)
  obtain r where r: "generate_result (?a\<lparr>df := with_indicators (df ?a)\<rparr>) (clock code)
        (latest_row (df ?a)) (prev_row (df ?a))
        (analyze_signals (latest_row (df ?a)) (prev_row (df ?a)))
        (calculate_confidence (analyze_signals (latest_row (df ?a)) (prev_row (df ?a))))
        = Populated r"
    and c: "confidence_score (rep_analysis r)
        = calculate_confidence (analyze_signals (latest_row (df ?a)) (prev_row (df ?a)))"
    and k: "rep_stock_code r = stock_code (?a\<lparr>df := with_indicators (df ?a)\<rparr>)"
    and u: "rep_success r = Some True"
    using generate_result_fields by blast
  have "analyze (snd (calculate_indicators ?a)) (clock code) = Populated r"
    by (simp only: analyze_enriched [OF len] r)
  moreover have "conf r = 80" by (simp add: conf_def c d rally_confidence)
  moreover have "rep_stock_code r = code" by (simp add: k StockAnalyzer_def)
  ultimately show ?thesis using s u by simp
qed


section \<open>The batch loop\<close>

lemma analyze_loop_kept: "analyze_loop body thr codes acc = acc @ kept body thr codes"
proof (induction codes arbitrary: acc)
  case Nil
  then show ?case by (simp add: kept_def)
next
  case (Cons c cs)
  then show ?case
    by (simp add: kept_def split: sum.splits option.splits)
qed

lemma kept_filter_completed: "kept body thr (filter (completed body) codes) = kept body thr codes"
  by (induction codes)
    (simp_all add: kept_def completed_def split: sum.splits option.splits)

lemma passing_SomeD:
  "passing thr res = Some r
   \<Longrightarrow> res = Populated r \<and> rep_success r = Some True \<and> thr \<le> real_of_int (conf r)"
  by (cases res) (auto simp add: conf_def split: if_splits)

lemma kept_elem:
  assumes "r \<in> set (kept body thr codes)"
  shows "\<exists>c \<in> set codes. body c = Inr (Some (Populated r))
           \<and> rep_success r = Some True \<and> thr \<le> real_of_int (conf r)"
proof -
  from assms obtain c where c: "c \<in> set codes"
    and f: "(case body c of Inr (Some res) \<Rightarrow> passing thr res | _ \<Rightarrow> None) = Some r"
    by (auto simp add: kept_def List.map_filter_def)
  from f obtain res where b: "body c = Inr (Some res)" and p: "passing thr res = Some r"
    by (auto split: sum.splits option.splits)
  from passing_SomeD [OF p] b c show ?thesis by auto
qed

lemma set_sort_desc: "set (sort_desc k xs) = set xs"
  by (simp add: sort_desc_def)

lemma sort_desc_Nil: "sort_desc k xs = [] \<longleftrightarrow> xs = []"
  by (metis set_sort_desc set_empty)

lemma sorted_sort_desc: "sorted_wrt (\<lambda>x y. k y \<le> k x) (sort_desc k xs)"
proof -
  have "sorted (map (\<lambda>x. - k x) (sort_key (\<lambda>x. - k x) xs))" by (rule sorted_sort_key)
  then show ?thesis by (simp add: sort_desc_def sorted_map)
qed

lemma sort_desc_stable:
  "filter (\<lambda>x. k x = c) (sort_desc k xs) = filter (\<lambda>x. k x = c) xs"
proof -
  have "filter (\<lambda>y. - k y = - c) (sort_key (\<lambda>x. - k x) xs) = filter (\<lambda>y. - k y = - c) xs"
    by (rule sort_key_stable)
  then show ?thesis by (simp add: sort_desc_def)
qed

lemma slice_to_take: "\<exists>m. slice_to n xs = take m xs"
  by (auto simp add: slice_to_def)

lemma length_slice_to: "0 \<le> n \<Longrightarrow> length (slice_to n xs) \<le> nat n"
  by (simp add: slice_to_def)

lemma analyze_all_fst:
  "fst (analyze_all get_price clock b thr)
   = sort_desc conf (kept (analyze_symbol get_price clock (batch_days b)) thr (stock_list b))"
  by (simp add: analyze_all_def Let_def analyze_loop_kept)

lemma analyze_all_snd:
  "snd (analyze_all get_price clock b thr)
   = b\<lparr>results := sort_desc conf
          (kept (analyze_symbol get_price clock (batch_days b)) thr (stock_list b))\<rparr>"
  by (simp add: analyze_all_def Let_def analyze_loop_kept)

text \<open>
  \<open>get_top_stocks\<close> after \<open>analyze_all(thr)\<close>: the sorted list of that run when it kept
  anything, else the sorted list of a second run at the default threshold 80.
\<close>

lemma top_after_analyze_all:
  "fst (get_top_stocks get_price clock (snd (analyze_all get_price clock b thr)) cap)
   = slice_to cap (sort_desc conf
       (kept (analyze_symbol get_price clock (batch_days b))
          (if kept (analyze_symbol get_price clock (batch_days b)) thr (stock_list b) = []
           then 80 else thr)
          (stock_list b)))"
  by (simp add: get_top_stocks_def Let_def analyze_all_snd sort_desc_Nil)

lemma analyze_symbol_cases:
  "analyze_symbol get_price clock days c =
     (if healthy get_price days c
      then Inr (Some (analyze (snd (calculate_indicators (StockAnalyzer get_price c days)))
                        (clock c)))
      else Inr None)"
proof (cases "get_price c days")
  case Raises
  then show ?thesis
    by (simp add: analyze_symbol_def healthy_def StockAnalyzer_def fetch_data_rows)
next
  case (Frame bars)
  show ?thesis
  proof (cases "30 \<le> length bars")
    case True
    then have "30 \<le> length (df (StockAnalyzer get_price c days))"
      by (simp add: StockAnalyzer_def fetch_data_rows Frame length_rows_of)
    then show ?thesis
      using True Frame
      by (auto simp add: analyze_symbol_def healthy_def calculate_indicators_long Let_def)
  next
    case False
    then have "length (df (StockAnalyzer get_price c days)) < 30"
      by (simp add: StockAnalyzer_def fetch_data_rows Frame length_rows_of)
    then show ?thesis
      using False Frame by (simp add: analyze_symbol_def healthy_def Let_def)
  qed
qed

lemma completed_healthy:
  "completed (analyze_symbol get_price clock days) c = healthy get_price days c"
  by (simp add: completed_def analyze_symbol_cases)

lemma completed_healthy_fun:
  "completed (analyze_symbol get_price clock days) = healthy get_price days"
  by (rule ext) (rule completed_healthy)

lemma analyze_symbol_code:
  assumes "analyze_symbol get_price clock days c = Inr (Some (Populated r))"
  shows "rep_stock_code r = c \<and> healthy get_price days c"
proof -
  let ?a = "StockAnalyzer get_price c days"
  from assms have h: "healthy get_price days c"
    by (simp add: analyze_symbol_cases split: if_splits)
  with assms have p: "analyze (snd (calculate_indicators ?a)) (clock c) = Populated r"
    by (simp add: analyze_symbol_cases)
  from h have len: "30 \<le> length (df ?a)"
    by (auto simp add: healthy_def StockAnalyzer_def fetch_data_rows length_rows_of
        split: fetched.splits)
  obtain r' where "generate_result (?a\<lparr>df := with_indicators (df ?a)\<rparr>) (clock c)
        (latest_row (df ?a)) (prev_row (df ?a))
        (analyze_signals (latest_row (df ?a)) (prev_row (df ?a)))
        (calculate_confidence (analyze_signals (latest_row (df ?a)) (prev_row (df ?a))))
        = Populated r'"
    and "rep_stock_code r' = stock_code (?a\<lparr>df := with_indicators (df ?a)\<rparr>)"
    using generate_result_fields by blast
  with p [unfolded analyze_enriched [OF len]] have "rep_stock_code r = c"
    by (simp add: StockAnalyzer_def)
  with h show ?thesis by simp
qed

lemma kept_codes:
  "map rep_stock_code (kept (analyze_symbol get_price clock days) thr codes)
   = filter (\<lambda>c. (case analyze_symbol get_price clock days c of
                     Inr (Some res) \<Rightarrow> passing thr res | _ \<Rightarrow> None) \<noteq> None) codes"
proof (induction codes)
  case Nil
  then show ?case by (simp add: kept_def)
next
  case (Cons c cs)
  let ?f = "\<lambda>c. case analyze_symbol get_price clock days c of
                   Inr (Some res) \<Rightarrow> passing thr res | _ \<Rightarrow> None"
  show ?case
  proof (cases "?f c")
    case None
    then show ?thesis using Cons by (simp add: kept_def)
  next
    case (Some r)
    then obtain res where b: "analyze_symbol get_price clock days c = Inr (Some res)"
      and p: "passing thr res = Some r"
      by (auto split: sum.splits option.splits)
    from passing_SomeD [OF p] b
    have "analyze_symbol get_price clock days c = Inr (Some (Populated r))" by simp
    from analyze_symbol_code [OF this] have "rep_stock_code r = c" by simp
    then show ?thesis using Cons Some by (simp add: kept_def)
  qed
qed

lemma kept_codes_subseq:
  "subseq (map rep_stock_code (kept (analyze_symbol get_price clock days) thr codes)) codes"
  by (simp only: kept_codes subseq_filter_left)


section \<open>The batch contract\<close>

lemma kept_Cons:
  "kept body thr (c # cs) =
     (case body c of
        Inr (Some res) \<Rightarrow>
          (case passing thr res of None \<Rightarrow> kept body thr cs | Some r \<Rightarrow> r # kept body thr cs)
      | _ \<Rightarrow> kept body thr cs)"
  by (simp add: kept_def split: sum.splits option.splits)

lemma kept_Nil: "kept body thr [] = []"
  by (simp add: kept_def)

text \<open>
  C3, as amended. \<open>analyze_all(threshold)\<close> followed by \<open>get_top_stocks(cap)\<close> returns
  successful analyses only, sorted descending by confidence, equal confidences in the
  order of the symbol list, and at most \<open>cap\<close> of them for a cap of 0 or more. Their
  confidence is at least the threshold when \<open>analyze_all\<close> kept any result. When it kept
  none, \<open>get_top_stocks\<close> runs \<open>analyze_all\<close> again with the default threshold 80, and
  the results have confidence 80 or more, whatever the threshold was.
\<close>

theorem top_stocks_contract:
  "let body = analyze_symbol get_price clock (batch_days b);
       thr' = (if kept body thr (stock_list b) = [] then 80 else thr);
       top = fst (get_top_stocks get_price clock (snd (analyze_all get_price clock b thr)) cap)
   in (\<forall>r \<in> set top. rep_success r = Some True \<and> thr' \<le> real_of_int (conf r))
      \<and> sorted_wrt (\<lambda>x y. conf y \<le> conf x) top
      \<and> (\<forall>c. prefix (filter (\<lambda>r. conf r = c) top)
                     (filter (\<lambda>r. conf r = c) (kept body thr' (stock_list b))))
      \<and> subseq (map rep_stock_code (kept body thr' (stock_list b))) (stock_list b)
      \<and> (0 \<le> cap \<longrightarrow> length top \<le> nat cap)"
proof -
  define body where "body = analyze_symbol get_price clock (batch_days b)"
  define thr' where "thr' = (if kept body thr (stock_list b) = [] then 80 else thr)"
  define K where "K = kept body thr' (stock_list b)"
  define top where
    "top = fst (get_top_stocks get_price clock (snd (analyze_all get_price clock b thr)) cap)"
  have t: "top = slice_to cap (sort_desc conf K)"
    unfolding top_def K_def thr'_def body_def by (rule top_after_analyze_all)
  obtain m where m: "top = take m (sort_desc conf K)"
    using slice_to_take [of cap "sort_desc conf K"] t by auto
  have 1: "\<forall>r \<in> set top. rep_success r = Some True \<and> thr' \<le> real_of_int (conf r)"
  proof
    fix r
    assume "r \<in> set top"
    then have "r \<in> set (sort_desc conf K)" unfolding m by (rule in_set_takeD)
    then have "r \<in> set (kept body thr' (stock_list b))" by (simp add: set_sort_desc K_def)
    from kept_elem [OF this]
    show "rep_success r = Some True \<and> thr' \<le> real_of_int (conf r)" by auto
  qed
  have 2: "sorted_wrt (\<lambda>x y. conf y \<le> conf x) top"
    unfolding m by (rule sorted_wrt_take) (rule sorted_sort_desc)
  have 3: "prefix (filter (\<lambda>r. conf r = c) top) (filter (\<lambda>r. conf r = c) K)" for c
  proof -
    have "prefix (filter (\<lambda>r. conf r = c) top) (filter (\<lambda>r. conf r = c) (sort_desc conf K))"
      unfolding m by (rule filter_mono_prefix) (rule take_is_prefix)
    then show ?thesis by (simp only: sort_desc_stable)
  qed
  have 4: "subseq (map rep_stock_code K) (stock_list b)"
    unfolding K_def body_def by (rule kept_codes_subseq)
  have 5: "0 \<le> cap \<longrightarrow> length top \<le> nat cap"
    unfolding t by (simp add: length_slice_to)
  from 1 2 3 4 5 show ?thesis
    unfolding Let_def body_def [symmetric] thr'_def [symmetric] top_def [symmetric]
      K_def [symmetric]
    by blast
qed

lemma mixed_source_values:
  "mixed_source ''sh600000'' 120 = Frame rally_bars"
  "mixed_source ''sh600036'' 120 = Frame rally_bars"
  "mixed_source ''sz000001'' 120 = Raises"
  "mixed_source ''sz000002'' 120 = Frame (take 10 rally_bars)"
  by (simp_all add: mixed_source_def)

lemma mixed_source_healthy:
  "healthy mixed_source 120 ''sh600000''"
  "healthy mixed_source 120 ''sh600036''"
  "\<not> healthy mixed_source 120 ''sz000001''"
  "\<not> healthy mixed_source 120 ''sz000002''"
  by (simp_all add: healthy_def mixed_source_values rally_bars_def)

lemma mixed_source_skips:
  "analyze_symbol mixed_source fixed_clock 120 ''sz000001'' = Inr None"
  "analyze_symbol mixed_source fixed_clock 120 ''sz000002'' = Inr None"
  by (simp_all add: analyze_symbol_cases mixed_source_healthy)

theorem top_stocks_contract_witness:
  "\<exists>r1 r2.
     kept (analyze_symbol mixed_source fixed_clock 120) 80
          [''sh600000'', ''sz000001'', ''sh600036''] = [r1, r2]
     \<and> rep_stock_code r1 = ''sh600000'' \<and> rep_stock_code r2 = ''sh600036''
     \<and> conf r1 = 80 \<and> conf r2 = 80
     \<and> fst (get_top_stocks mixed_source fixed_clock
              (snd (analyze_all mixed_source fixed_clock
                     (BatchStockAnalyzer [''sh600000'', ''sz000001'', ''sh600036''] 120) 80)) 1)
         = [r1]
     \<and> length (fst (get_top_stocks mixed_source fixed_clock
              (snd (analyze_all mixed_source fixed_clock
                     (BatchStockAnalyzer [''sh600000'', ''sz000001'', ''sh600036''] 120) 80)) 1))
         \<le> nat 1"
proof -
  let ?body = "analyze_symbol mixed_source fixed_clock 120"
  let ?b = "BatchStockAnalyzer [''sh600000'', ''sz000001'', ''sh600036''] 120"
  obtain r1 where r1: "?body ''sh600000'' = Inr (Some (Populated r1))" "conf r1 = 80"
    "rep_success r1 = Some True" "rep_stock_code r1 = ''sh600000''"
    using rally_symbol [where get_price = mixed_source and code = "''sh600000''" and days = 120
        and clock = fixed_clock, OF mixed_source_values(1)]
    by blast
  obtain r2 where r2: "?body ''sh600036'' = Inr (Some (Populated r2))" "conf r2 = 80"
    "rep_success r2 = Some True" "rep_stock_code r2 = ''sh600036''"
    using rally_symbol [where get_price = mixed_source and code = "''sh600036''" and days = 120
        and clock = fixed_clock, OF mixed_source_values(2)]
    by blast
  have c: "confidence_score (rep_analysis r1) = 80" "confidence_score (rep_analysis r2) = 80"
    using r1(2) r2(2) by (simp_all add: conf_def)
  have k: "kept ?body 80 [''sh600000'', ''sz000001'', ''sh600036''] = [r1, r2]"
    by (simp add: kept_Cons kept_Nil r1 r2 c mixed_source_skips)
  have s: "sort_desc conf [r1, r2] = [r1, r2]"
    by (simp add: sort_desc_def r1(2) r2(2))
  have t: "fst (get_top_stocks mixed_source fixed_clock
             (snd (analyze_all mixed_source fixed_clock ?b 80)) 1) = [r1]"
    by (simp add: top_after_analyze_all BatchStockAnalyzer_def k s slice_to_def)
  from top_stocks_contract [of mixed_source fixed_clock ?b 80 1]
  have "length (fst (get_top_stocks mixed_source fixed_clock
             (snd (analyze_all mixed_source fixed_clock ?b 80)) 1)) \<le> nat 1"
    by (simp add: Let_def)
  with k t r1 r2 show ?thesis by blast
qed

text \<open>
  The claim fails for the threshold 90 on a single symbol whose confidence is 80:
  \<open>analyze_all(90)\<close> keeps nothing, and \<open>get_top_stocks(10)\<close> then returns that symbol's
  analysis, below the threshold.
\<close>

theorem top_stocks_counterexample:
  "fst (analyze_all mixed_source fixed_clock (BatchStockAnalyzer [''sh600000''] 120) 90) = []
   \<and> (\<exists>r. fst (get_top_stocks mixed_source fixed_clock
                 (snd (analyze_all mixed_source fixed_clock
                        (BatchStockAnalyzer [''sh600000''] 120) 90)) 10) = [r]
          \<and> rep_stock_code r = ''sh600000'' \<and> conf r = 80 \<and> real_of_int (conf r) < 90)"
proof -
  let ?body = "analyze_symbol mixed_source fixed_clock 120"
  let ?b = "BatchStockAnalyzer [''sh600000''] 120"
  obtain r where r: "?body ''sh600000'' = Inr (Some (Populated r))" "conf r = 80"
    "rep_success r = Some True" "rep_stock_code r = ''sh600000''"
    using rally_symbol [where get_price = mixed_source and code = "''sh600000''" and days = 120
        and clock = fixed_clock, OF mixed_source_values(1)]
    by blast
  have c: "confidence_score (rep_analysis r) = 80" using r(2) by (simp add: conf_def)
  have k90: "kept ?body 90 [''sh600000''] = []"
    by (simp add: kept_Cons kept_Nil r c)
  have k80: "kept ?body 80 [''sh600000''] = [r]"
    by (simp add: kept_Cons kept_Nil r c)
  have a: "fst (analyze_all mixed_source fixed_clock ?b 90) = []"
    by (simp add: analyze_all_fst BatchStockAnalyzer_def k90 sort_desc_def)
  have t: "fst (get_top_stocks mixed_source fixed_clock
             (snd (analyze_all mixed_source fixed_clock ?b 90)) 10) = [r]"
    by (simp add: top_after_analyze_all BatchStockAnalyzer_def k90 k80 sort_desc_def
        slice_to_def)
  from a t r show ?thesis by simp
qed

text \<open>
  C8. Whatever the body of the loop does for a symbol (raise any exception, leave the
  pass early, or return a result), the loop returns a list, and the symbols whose body
  did not run to a result leave no trace in it: the list is the one computed from the
  other symbols alone, and every report in it is the result of its symbol's body. For
  \<open>analyze_all\<close> the symbols that run to a result are those for which the price source
  delivers 30 bars or more: a source that raises, an empty frame and a short frame each
  skip the symbol, and a batch in which every symbol fails returns the empty list.
\<close>

theorem batch_isolates_failures:
  "analyze_loop body thr codes [] = analyze_loop body thr (filter (completed body) codes) []
   \<and> (\<forall>r \<in> set (analyze_loop body thr codes []).
         \<exists>c \<in> set codes. body c = Inr (Some (Populated r)))
   \<and> fst (analyze_all get_price clock b thr)
       = fst (analyze_all get_price clock
                (b\<lparr>stock_list := filter (healthy get_price (batch_days b)) (stock_list b)\<rparr>) thr)
   \<and> (\<forall>r \<in> set (fst (analyze_all get_price clock b thr)).
         rep_stock_code r \<in> set (stock_list b)
         \<and> healthy get_price (batch_days b) (rep_stock_code r))
   \<and> ((\<forall>c \<in> set (stock_list b). \<not> healthy get_price (batch_days b) c)
        \<longrightarrow> fst (analyze_all get_price clock b thr) = [])"
proof -
  let ?body = "analyze_symbol get_price clock (batch_days b)"
  have 1: "analyze_loop body thr codes []
           = analyze_loop body thr (filter (completed body) codes) []"
    by (simp add: analyze_loop_kept kept_filter_completed)
  have 2: "\<forall>r \<in> set (analyze_loop body thr codes []).
             \<exists>c \<in> set codes. body c = Inr (Some (Populated r))"
  proof
    fix r
    assume "r \<in> set (analyze_loop body thr codes [])"
    then have "r \<in> set (kept body thr codes)" by (simp add: analyze_loop_kept)
    from kept_elem [OF this] show "\<exists>c \<in> set codes. body c = Inr (Some (Populated r))" by auto
  qed
  have "filter (healthy get_price (batch_days b)) (stock_list b)
        = filter (completed ?body) (stock_list b)"
    by (simp only: completed_healthy_fun)
  then have 3: "fst (analyze_all get_price clock b thr)
       = fst (analyze_all get_price clock
                (b\<lparr>stock_list := filter (healthy get_price (batch_days b)) (stock_list b)\<rparr>) thr)"
    by (simp add: analyze_all_fst kept_filter_completed)
  have 4: "\<forall>r \<in> set (fst (analyze_all get_price clock b thr)).
         rep_stock_code r \<in> set (stock_list b)
         \<and> healthy get_price (batch_days b) (rep_stock_code r)"
  proof
    fix r
    assume "r \<in> set (fst (analyze_all get_price clock b thr))"
    then have "r \<in> set (kept ?body thr (stock_list b))"
      by (simp add: analyze_all_fst set_sort_desc)
    from kept_elem [OF this] obtain c where c: "c \<in> set (stock_list b)"
      and p: "?body c = Inr (Some (Populated r))"
      by auto
    from analyze_symbol_code [OF p] c
    show "rep_stock_code r \<in> set (stock_list b)
          \<and> healthy get_price (batch_days b) (rep_stock_code r)"
      by simp
  qed
  have 5: "(\<forall>c \<in> set (stock_list b). \<not> healthy get_price (batch_days b) c)
        \<longrightarrow> fst (analyze_all get_price clock b thr) = []"
  proof
    assume "\<forall>c \<in> set (stock_list b). \<not> healthy get_price (batch_days b) c"
    then have "filter (completed ?body) (stock_list b) = []"
      by (simp add: completed_healthy_fun)
    then have "kept ?body thr (stock_list b) = []"
      using kept_filter_completed [of ?body thr "stock_list b"] by (simp add: kept_Nil)
    then show "fst (analyze_all get_price clock b thr) = []"
      by (simp add: analyze_all_fst sort_desc_def)
  qed
  show ?thesis by (intro conjI) (fact 1 2 3 4 5)+
qed

theorem batch_isolates_failures_witness:
  "\<not> healthy mixed_source 120 ''sz000001'' \<and> \<not> healthy mixed_source 120 ''sz000002''
   \<and> healthy mixed_source 120 ''sh600000''
   \<and> fst (analyze_all mixed_source fixed_clock
            (BatchStockAnalyzer [''sz000001'', ''sh600000'', ''sz000002''] 120) 80)
       = fst (analyze_all mixed_source fixed_clock
            (BatchStockAnalyzer [''sh600000''] 120) 80)
   \<and> map rep_stock_code
        (fst (analyze_all mixed_source fixed_clock
               (BatchStockAnalyzer [''sz000001'', ''sh600000'', ''sz000002''] 120) 80))
       = [''sh600000'']
   \<and> fst (analyze_all mixed_source fixed_clock
            (BatchStockAnalyzer [''sz000001'', ''sz000002''] 120) 80) = []"
proof -
  let ?body = "analyze_symbol mixed_source fixed_clock 120"
  let ?b = "BatchStockAnalyzer [''sz000001'', ''sh600000'', ''sz000002''] 120"
  let ?n = "BatchStockAnalyzer [''sz000001'', ''sz000002''] 120"
  obtain r where r: "?body ''sh600000'' = Inr (Some (Populated r))" "conf r = 80"
    "rep_success r = Some True" "rep_stock_code r = ''sh600000''"
    using rally_symbol [where get_price = mixed_source and code = "''sh600000''" and days = 120
        and clock = fixed_clock, OF mixed_source_values(1)]
    by blast
  have c: "confidence_score (rep_analysis r) = 80" using r(2) by (simp add: conf_def)
  have k: "kept ?body 80 [''sh600000''] = [r]"
    by (simp add: kept_Cons kept_Nil r c)
  have one: "fst (analyze_all mixed_source fixed_clock (BatchStockAnalyzer [''sh600000''] 120) 80)
             = [r]"
    by (simp add: analyze_all_fst BatchStockAnalyzer_def k sort_desc_def)
  from batch_isolates_failures [of ?body 80 "[]" mixed_source fixed_clock ?b]
  have iso: "fst (analyze_all mixed_source fixed_clock ?b 80)
     = fst (analyze_all mixed_source fixed_clock
         (?b\<lparr>stock_list := filter (healthy mixed_source (batch_days ?b)) (stock_list ?b)\<rparr>) 80)"
    by blast
  have f: "?b\<lparr>stock_list := filter (healthy mixed_source (batch_days ?b)) (stock_list ?b)\<rparr>
           = BatchStockAnalyzer [''sh600000''] 120"
    by (simp add: BatchStockAnalyzer_def mixed_source_healthy)
  have "\<forall>c \<in> set (stock_list ?n). \<not> healthy mixed_source (batch_days ?n) c"
    by (simp add: BatchStockAnalyzer_def mixed_source_healthy)
  with batch_isolates_failures [of ?body 80 "[]" mixed_source fixed_clock ?n]
  have none: "fst (analyze_all mixed_source fixed_clock ?n 80) = []"
    by blast
  show ?thesis
    using iso none by (simp add: f one r mixed_source_healthy)
qed


text \<open>
  The confidence rule of mods/stock\_analyzer.py, for reference next to C1: on a frame of
  30 rows or more \<open>analyze\<close> returns a populated result whose confidence is the
  specification's capped sum of its own signals, between 0 and 100.
\<close>

theorem mods_confidence_matches_spec:
  assumes "30 \<le> length (df a)"
  shows "\<exists>r. analyze a now = Populated r
       \<and> confidence_score (rep_analysis r) = spec_confidence (detailed_signals (rep_analysis r))
       \<and> 0 \<le> confidence_score (rep_analysis r) \<and> confidence_score (rep_analysis r) \<le> 100"
  using assms by (rule mods_confidence_is_spec)

theorem mods_confidence_matches_spec_witness:
  "30 \<le> length (df (StockAnalyzer mixed_source ''sh600000'' 120))
   \<and> (\<exists>r. analyze (StockAnalyzer mixed_source ''sh600000'' 120) ''t'' = Populated r
          \<and> confidence_score (rep_analysis r)
              = spec_confidence (detailed_signals (rep_analysis r))
          \<and> 0 \<le> confidence_score (rep_analysis r)
          \<and> confidence_score (rep_analysis r) \<le> 100)"
proof -
  have len: "30 \<le> length (df (StockAnalyzer mixed_source ''sh600000'' 120))"
    by (simp add: StockAnalyzer_def fetch_data_rows mixed_source_values rally_cols)
  from mods_confidence_matches_spec [OF len, of "''t''"] len show ?thesis by blast
qed


section \<open>Determinism\<close>

lemma analyze_same_state:
  assumes "stock_code a1 = stock_code a2" and "df a1 = df a2"
  shows "with_timestamp t (analyze a1 now1) = with_timestamp t (analyze a2 now2)"
  using assms
  by (simp add: analyze_def empty_result_def generate_result_def calculate_risk_metrics_def
      Let_def split: prod.splits)

lemma bars_of_with_indicators: "bars_of (with_indicators d) = bars_of d"
  by (rule nth_equalityI) (simp_all add: bars_of_def length_with_indicators with_indicators_nth)

text \<open>
  C9, as amended. The result of \<open>analyze\<close> is a function of the stock code, the frame
  (the bars with the columns derived from them so far) and the clock, and the clock
  reaches the timestamp only. So two invocations on identical bar data in the same
  indicator state, both before \<open>calculate_indicators\<close> or both after it, return results
  that agree in every field but the timestamp, whatever the times and whatever else
  differs between the two analyzers. The same bars analysed once before and once after
  \<open>calculate_indicators\<close> are not covered: before it every indicator reads its default.
\<close>

theorem analyze_deterministic:
  "(stock_code a1 = stock_code a2 \<and> df a1 = df a2
      \<longrightarrow> with_timestamp t (analyze a1 now1) = with_timestamp t (analyze a2 now2))
   \<and> (get_price1 code days1 = get_price2 code days2
      \<longrightarrow> with_timestamp t (analyze (StockAnalyzer get_price1 code days1) now1)
            = with_timestamp t (analyze (StockAnalyzer get_price2 code days2) now2)
          \<and> with_timestamp t
              (analyze (snd (calculate_indicators (StockAnalyzer get_price1 code days1))) now1)
            = with_timestamp t
              (analyze (snd (calculate_indicators (StockAnalyzer get_price2 code days2))) now2))"
proof (intro conjI impI)
  assume "stock_code a1 = stock_code a2 \<and> df a1 = df a2"
  then show "with_timestamp t (analyze a1 now1) = with_timestamp t (analyze a2 now2)"
    by (intro analyze_same_state) simp_all
next
  let ?a1 = "StockAnalyzer get_price1 code days1" and ?a2 = "StockAnalyzer get_price2 code days2"
  assume g: "get_price1 code days1 = get_price2 code days2"
  then have d: "df ?a1 = df ?a2" and c: "stock_code ?a1 = stock_code ?a2"
    by (simp_all add: StockAnalyzer_def fetch_data_def)
  show "with_timestamp t (analyze ?a1 now1) = with_timestamp t (analyze ?a2 now2)"
    by (rule analyze_same_state [OF c d])
  have "stock_code (snd (calculate_indicators ?a1)) = stock_code (snd (calculate_indicators ?a2))"
    using c d by (simp add: calculate_indicators_def)
  moreover have "df (snd (calculate_indicators ?a1)) = df (snd (calculate_indicators ?a2))"
    using d by (simp add: calculate_indicators_def)
  ultimately show "with_timestamp t (analyze (snd (calculate_indicators ?a1)) now1)
      = with_timestamp t (analyze (snd (calculate_indicators ?a2)) now2)"
    by (rule analyze_same_state)
qed

theorem analyze_deterministic_witness:
  "mixed_source ''sh600000'' 120 = mixed_source ''sh600000'' 250
   \<and> with_timestamp [] (analyze (StockAnalyzer mixed_source ''sh600000'' 120)
        ''2026-01-05T09:30:00'')
     = with_timestamp [] (analyze (StockAnalyzer mixed_source ''sh600000'' 250)
        ''2026-01-05T15:00:00'')
   \<and> with_timestamp []
        (analyze (snd (calculate_indicators (StockAnalyzer mixed_source ''sh600000'' 120)))
           ''2026-01-05T09:30:00'')
     = with_timestamp []
        (analyze (snd (calculate_indicators (StockAnalyzer mixed_source ''sh600000'' 250)))
           ''2026-01-05T15:00:00'')
   \<and> result_confidence
        (analyze (snd (calculate_indicators (StockAnalyzer mixed_source ''sh600000'' 120)))
           ''2026-01-05T09:30:00'') = Some 80"
proof -
  have g: "mixed_source ''sh600000'' 120 = mixed_source ''sh600000'' 250"
    by (simp add: mixed_source_def)
  let ?a = "StockAnalyzer mixed_source ''sh600000'' 120"
  have d: "df ?a = rows_of rally_bars"
    by (simp add: StockAnalyzer_def fetch_data_rows mixed_source_values)
  have len: "30 \<le> length (df ?a)" by (simp add: d rally_cols)
  obtain r where "generate_result (?a\<lparr>df := with_indicators (df ?a)\<rparr>) ''2026-01-05T09:30:00''
        (latest_row (df ?a)) (prev_row (df ?a))
        (analyze_signals (latest_row (df ?a)) (prev_row (df ?a)))
        (calculate_confidence (analyze_signals (latest_row (df ?a)) (prev_row (df ?a))))
        = Populated r"
    and "confidence_score (rep_analysis r)
        = calculate_confidence (analyze_signals (latest_row (df ?a)) (prev_row (df ?a)))"
    using generate_result_fields by blast
  then have e: "result_confidence (analyze (snd (calculate_indicators ?a))
        ''2026-01-05T09:30:00'') = Some 80"
    by (simp add: analyze_enriched [OF len] d rally_confidence)
  from analyze_deterministic [of ?a ?a "[]" "''2026-01-05T09:30:00''" "''2026-01-05T15:00:00''"
      mixed_source "''sh600000''" 120 mixed_source 250] g
  have w1: "with_timestamp [] (analyze (StockAnalyzer mixed_source ''sh600000'' 120)
        ''2026-01-05T09:30:00'')
     = with_timestamp [] (analyze (StockAnalyzer mixed_source ''sh600000'' 250)
        ''2026-01-05T15:00:00'')"
    and w2: "with_timestamp []
        (analyze (snd (calculate_indicators (StockAnalyzer mixed_source ''sh600000'' 120)))
           ''2026-01-05T09:30:00'')
     = with_timestamp []
        (analyze (snd (calculate_indicators (StockAnalyzer mixed_source ''sh600000'' 250)))
           ''2026-01-05T15:00:00'')"
    by blast+
  show ?thesis by (intro conjI) (rule g w1 w2 e)+
qed

lemma rally_rows_plain:
  "ind (last (rows_of rally_bars)) = None"
  "ind (rows_of rally_bars ! 28) = None"
  "bars_of (rows_of rally_bars) = rally_bars"
  by code_simp+

lemma rally_plain_confidence:
  "calculate_confidence
     (analyze_signals (last (rows_of rally_bars)) (rows_of rally_bars ! 28)) = 35"
proof -
  let ?l = "last (rows_of rally_bars)" and ?p = "rows_of rally_bars ! 28"
  have g: "row_get ?l f dflt = dflt" "row_get ?p f dflt = dflt" for f dflt
    by (simp_all add: row_get_def rally_rows_plain)
  have t: "score (trend (analyze_signals ?l ?p)) = 15"
    by (simp add: analyze_signals_trend_score g rally_bar_fields fgt_def)
  have m: "score (momentum (analyze_signals ?l ?p)) = 10"
    by (simp add: analyze_signals_momentum_score g rsi_points_def crosses_up_def fgt_def
        fle_def)
  have v: "score (volume (analyze_signals ?l ?p)) = 10"
    by (simp add: analyze_signals_volume_score g rally_bar_fields fgt_def)
  have o: "score (oscillators (analyze_signals ?l ?p)) = 0"
    by (simp add: analyze_signals_oscillators_score g)
  show ?thesis
    by (simp add: calculate_confidence_sum t m v o analyze_signals_patterns)
qed

lemma generate_result_action:
  "result_confidence (generate_result a now l p s c) = Some c
   \<and> result_action (generate_result a now l p s c) = Some (fst (snd (verdict c)))"
  by (simp add: generate_result_def Let_def split: prod.splits)

text \<open>
  The claim fails when the two invocations stand on either side of
  \<open>calculate_indicators\<close>, as in \<open>analyze_with_realtime\<close>: on the rally frame, with the
  same thirty bars in both frames, \<open>analyze\<close> returns confidence 35 and SELL before the
  indicators are computed and confidence 80 and BUY after.
\<close>

theorem analyze_before_after_counterexample:
  "bars_of (df (StockAnalyzer mixed_source ''sh600000'' 120)) = rally_bars
   \<and> bars_of (df (snd (calculate_indicators (StockAnalyzer mixed_source ''sh600000'' 120))))
       = rally_bars
   \<and> result_confidence (analyze (StockAnalyzer mixed_source ''sh600000'' 120) ''t'') = Some 35
   \<and> result_action (analyze (StockAnalyzer mixed_source ''sh600000'' 120) ''t'') = Some SELL
   \<and> result_confidence
        (analyze (snd (calculate_indicators (StockAnalyzer mixed_source ''sh600000'' 120))) ''t'')
       = Some 80
   \<and> result_action
        (analyze (snd (calculate_indicators (StockAnalyzer mixed_source ''sh600000'' 120))) ''t'')
       = Some BUY"
proof -
  let ?a = "StockAnalyzer mixed_source ''sh600000'' 120"
  have d: "df ?a = rows_of rally_bars"
    by (simp add: StockAnalyzer_def fetch_data_rows mixed_source_values)
  have n: "length (rows_of rally_bars) = 30" by (simp add: rally_cols)
  have len: "30 \<le> length (df ?a)" by (simp add: d n)
  have ne: "rows_of rally_bars \<noteq> []" using n by auto
  have b1: "bars_of (df ?a) = rally_bars" by (simp add: d rally_rows_plain)
  have b2: "bars_of (df (snd (calculate_indicators ?a))) = rally_bars"
    by (simp add: calculate_indicators_long [OF len] bars_of_with_indicators d rally_rows_plain)
  have p: "analyze ?a ''t'' = generate_result ?a ''t'' (last (rows_of rally_bars))
             (rows_of rally_bars ! 28)
             (analyze_signals (last (rows_of rally_bars)) (rows_of rally_bars ! 28)) 35"
    using ne by (simp add: analyze_def d n Let_def rally_plain_confidence)
  have q: "analyze (snd (calculate_indicators ?a)) ''t''
           = generate_result (?a\<lparr>df := with_indicators (df ?a)\<rparr>) ''t''
               (latest_row (df ?a)) (prev_row (df ?a))
               (analyze_signals (latest_row (df ?a)) (prev_row (df ?a))) 80"
    by (simp add: analyze_enriched [OF len] d rally_confidence)
  have v: "fst (snd (verdict 35)) = SELL" "fst (snd (verdict 80)) = BUY"
    by (simp_all add: verdict_def)
  show ?thesis
    by (simp only: b1 b2 p q generate_result_action v simp_thms)
qed


end
